theory Spec2Isabelle
  imports Main
begin

section \<open>JavaScript values used by the transcript code\<close>

text \<open>
  Strings are character lists. An optional property (\<^verbatim>\<open>deletedAt?: string\<close>) is an
  option, \<open>None\<close> standing for \<^verbatim>\<open>undefined\<close>. The code tests such values by
  truthiness: \<^verbatim>\<open>undefined\<close> and the empty string are falsy.
\<close>

definition truthy :: "string option \<Rightarrow> bool" where
  "truthy v = (case v of None \<Rightarrow> False | Some s \<Rightarrow> s \<noteq> [])"

text \<open>\<^verbatim>\<open>a || b\<close> on strings.\<close>

definition or_else :: "string \<Rightarrow> string \<Rightarrow> string" where
  "or_else a b = (if a = [] then b else a)"

text \<open>\<^verbatim>\<open>a || b\<close> where \<open>a\<close> may be undefined.\<close>

definition opt_or :: "string option \<Rightarrow> string \<Rightarrow> string" where
  "opt_or a b = (case a of None \<Rightarrow> b | Some s \<Rightarrow> if s = [] then b else s)"

text \<open>
  \<^verbatim>\<open>prefix + error.message\<close>: a missing message prints as \<^verbatim>\<open>undefined\<close>.
\<close>

definition plus_message :: "string \<Rightarrow> string option \<Rightarrow> string" where
  "plus_message prefix m = prefix @ (case m of None \<Rightarrow> ''undefined'' | Some t \<Rightarrow> t)"

text \<open>
  \<^verbatim>\<open>Array.prototype.findIndex\<close>: the index of the first element satisfying the
  predicate; JavaScript's \<open>-1\<close> is \<open>None\<close>.
\<close>

fun findIndex :: "('a \<Rightarrow> bool) \<Rightarrow> 'a list \<Rightarrow> nat option" where
  "findIndex P [] = None"
| "findIndex P (x # xs) =
     (if P x then Some 0 else map_option Suc (findIndex P xs))"

section \<open>The local store: services/transcriptService.ts\<close>

text \<open>
  \<^verbatim>\<open>interface SavedTranscript\<close>. The fields \<^verbatim>\<open>id\<close> and \<^verbatim>\<open>text\<close> are named
  \<open>tid\<close> and \<open>ttext\<close> here. Timestamps are the ISO strings the code stores.
\<close>

record SavedTranscript =
  tid :: string
  ttext :: string
  timestamp :: string
  deletedAt :: "string option"
  language :: "string option"
  userId :: "string option"

text \<open>
  The browser's \<^verbatim>\<open>localStorage\<close>, reduced to the one key the service uses,
  \<^verbatim>\<open>'savedTranscripts'\<close>: \<open>None\<close> when the key is absent, otherwise the array that
  \<^verbatim>\<open>JSON.parse\<close> yields. \<open>setItem_calls\<close> counts the writes, so that a path
  without a write is visible in the state. The store holds what the service itself
  wrote with \<^verbatim>\<open>JSON.stringify\<close>, and writes are taken to succeed (the
  specification's assumption for the local store); the \<^verbatim>\<open>catch\<close> blocks of the
  service, which only answer a failing \<^verbatim>\<open>JSON.parse\<close> or \<^verbatim>\<open>setItem\<close>, therefore
  have no branch here.
\<close>

record localStorage =
  savedTranscripts :: "SavedTranscript list option"
  setItem_calls :: nat

definition setItem :: "SavedTranscript list \<Rightarrow> localStorage \<Rightarrow> localStorage" where
  "setItem v ls = ls\<lparr>savedTranscripts := Some v, setItem_calls := Suc (setItem_calls ls)\<rparr>"

text \<open>\<^verbatim>\<open>json ? JSON.parse(json) : []\<close>\<close>

definition parsed :: "localStorage \<Rightarrow> SavedTranscript list" where
  "parsed ls = (case savedTranscripts ls of None \<Rightarrow> [] | Some ts \<Rightarrow> ts)"

definition getAllTranscripts :: "string option \<Rightarrow> localStorage \<Rightarrow> SavedTranscript list" where
  "getAllTranscripts uid ls =
     (if truthy uid then filter (\<lambda>t. userId t = uid) (parsed ls) else parsed ls)"

definition getSavedTranscripts :: "string option \<Rightarrow> localStorage \<Rightarrow> SavedTranscript list" where
  "getSavedTranscripts uid ls =
     filter (\<lambda>t. if truthy (deletedAt t) then False
                 else if truthy uid then userId t = uid else True) (parsed ls)"

definition getTrashTranscripts :: "string option \<Rightarrow> localStorage \<Rightarrow> SavedTranscript list" where
  "getTrashTranscripts uid ls =
     filter (\<lambda>t. if \<not> truthy (deletedAt t) then False
                 else if truthy uid then userId t = uid else True) (parsed ls)"

text \<open>\<^verbatim>\<open>transcripts.find(t => t.id === id) || null\<close>\<close>

definition getTranscriptById :: "string \<Rightarrow> string option \<Rightarrow> localStorage \<Rightarrow> SavedTranscript option" where
  "getTranscriptById i uid ls = find (\<lambda>t. tid t = i) (getAllTranscripts uid ls)"

text \<open>
  \<^verbatim>\<open>storeTranscriptLocally\<close>: \<open>now_ms\<close> is \<^verbatim>\<open>Date.now().toString()\<close> and
  \<open>now_iso\<close> is \<^verbatim>\<open>new Date().toISOString()\<close> at the call. The language parameter has
  the default \<^verbatim>\<open>'en-US'\<close>, which the caller of the model passes explicitly.
\<close>

definition storeTranscriptLocally ::
  "string \<Rightarrow> string \<Rightarrow> string option \<Rightarrow> string \<Rightarrow> string \<Rightarrow> localStorage \<Rightarrow> localStorage" where
  "storeTranscriptLocally transcript lang uid now_ms now_iso ls =
     setItem (parsed ls @
       [\<lparr>tid = now_ms, ttext = transcript, timestamp = now_iso, deletedAt = None,
         language = Some lang, userId = uid\<rparr>]) ls"

text \<open>
  The four transitions by id. Each reads every record (\<^verbatim>\<open>getAllTranscripts()\<close>
  with no user), returns \<^verbatim>\<open>false\<close> before any write when the id is not found, and
  otherwise writes the whole array back.
\<close>

definition updateTranscript :: "string \<Rightarrow> string \<Rightarrow> localStorage \<Rightarrow> bool \<times> localStorage" where
  "updateTranscript i newText ls =
     (let transcripts = getAllTranscripts None ls in
      case findIndex (\<lambda>t. tid t = i) transcripts of
        None \<Rightarrow> (False, ls)
      | Some index \<Rightarrow>
          (True, setItem (transcripts[index := (transcripts ! index)\<lparr>ttext := newText\<rparr>]) ls))"

definition moveToTrash :: "string \<Rightarrow> string \<Rightarrow> localStorage \<Rightarrow> bool \<times> localStorage" where
  "moveToTrash i now_iso ls =
     (let transcripts = getAllTranscripts None ls in
      case findIndex (\<lambda>t. tid t = i) transcripts of
        None \<Rightarrow> (False, ls)
      | Some index \<Rightarrow>
          (True, setItem (transcripts[index := (transcripts ! index)\<lparr>deletedAt := Some now_iso\<rparr>]) ls))"

definition restoreFromTrash :: "string \<Rightarrow> localStorage \<Rightarrow> bool \<times> localStorage" where
  "restoreFromTrash i ls =
     (let transcripts = getAllTranscripts None ls in
      case findIndex (\<lambda>t. tid t = i) transcripts of
        None \<Rightarrow> (False, ls)
      | Some index \<Rightarrow>
          (True, setItem (transcripts[index := (transcripts ! index)\<lparr>deletedAt := None\<rparr>]) ls))"

definition permanentlyDelete :: "string \<Rightarrow> localStorage \<Rightarrow> bool \<times> localStorage" where
  "permanentlyDelete i ls =
     (let transcripts = getAllTranscripts None ls;
          filteredTranscripts = filter (\<lambda>t. tid t \<noteq> i) transcripts in
      if length filteredTranscripts = length transcripts then (False, ls)
      else (True, setItem filteredTranscripts ls))"

definition emptyTrash :: "localStorage \<Rightarrow> bool \<times> localStorage" where
  "emptyTrash ls =
     (let transcripts = getAllTranscripts None ls;
          remainingTranscripts = filter (\<lambda>t. \<not> truthy (deletedAt t)) transcripts in
      (True, setItem remainingTranscripts ls))"

section \<open>The trash view: components/TrashManagement.tsx\<close>

text \<open>
  \<^verbatim>\<open>new Date(dateString).getTime()\<close> for the strings the service stores, those of
  \<^verbatim>\<open>toISOString()\<close>: \<^verbatim>\<open>YYYY-MM-DDTHH:mm:ss.sssZ\<close>. The result is the time in
  milliseconds since the epoch; \<open>None\<close> is the invalid date of any other string.
  \<open>days_from_civil\<close> counts the days from 1 January 1970 to a date of the Gregorian
  calendar.
\<close>

definition digit :: "char \<Rightarrow> int option" where
  "digit c = map_option int (findIndex (\<lambda>d. d = c) ''0123456789'')"

fun number :: "int \<Rightarrow> string \<Rightarrow> int option" where
  "number acc [] = Some acc"
| "number acc (c # cs) =
     (case digit c of None \<Rightarrow> None | Some d \<Rightarrow> number (10 * acc + d) cs)"

definition days_from_civil :: "int \<Rightarrow> int \<Rightarrow> int \<Rightarrow> int" where
  "days_from_civil y m d =
     (let y' = (if m \<le> 2 then y - 1 else y);
          era = y' div 400;
          yoe = y' - era * 400;
          doy = (153 * (if m > 2 then m - 3 else m + 9) + 2) div 5 + d - 1;
          doe = yoe * 365 + yoe div 4 - yoe div 100 + doy
      in era * 146097 + doe - 719468)"

definition getTime :: "string \<Rightarrow> int option" where
  "getTime s =
     (if length s = 24 \<and> s ! 4 = CHR ''-'' \<and> s ! 7 = CHR ''-'' \<and> s ! 10 = CHR ''T''
         \<and> s ! 13 = CHR '':'' \<and> s ! 16 = CHR '':'' \<and> s ! 19 = CHR ''.'' \<and> s ! 23 = CHR ''Z''
      then
        (case (number 0 (take 4 s), number 0 (take 2 (drop 5 s)), number 0 (take 2 (drop 8 s)),
               number 0 (take 2 (drop 11 s)), number 0 (take 2 (drop 14 s)),
               number 0 (take 2 (drop 17 s)), number 0 (take 3 (drop 20 s))) of
           (Some y, Some m, Some d, Some h, Some mi, Some sec, Some ms) \<Rightarrow>
             if 1 \<le> m \<and> m \<le> 12 \<and> 1 \<le> d \<and> d \<le> 31 \<and> h \<le> 23 \<and> mi \<le> 59 \<and> sec \<le> 59
             then Some ((((days_from_civil y m d * 24 + h) * 60 + mi) * 60 + sec) * 1000 + ms)
             else None
         | _ \<Rightarrow> None)
      else None)"

text \<open>
  \<^verbatim>\<open>formatDate\<close>. \<open>now_ms\<close> is \<^verbatim>\<open>new Date().getTime()\<close>. The quotient is below
  \<open>2^53\<close>, so \<^verbatim>\<open>Math.floor\<close> of the floating-point division is the integer floor
  that \<open>div\<close> computes. The locale string \<^verbatim>\<open>formatted\<close> is left out; \<open>None\<close> stands
  for the \<^verbatim>\<open>NaN\<close> fields of an invalid date.
\<close>

record date_info =
  daysAgo :: int
  daysLeft :: int

definition formatDate :: "string \<Rightarrow> int \<Rightarrow> date_info option" where
  "formatDate dateString now_ms =
     (case getTime dateString of
        None \<Rightarrow> None
      | Some date \<Rightarrow>
          (let diffDays = (now_ms - date) div (1000 * 60 * 60 * 24) in
           Some \<lparr>daysAgo = diffDays, daysLeft = 30 - diffDays\<rparr>))"

text \<open>
  A row of the trash list: \<^verbatim>\<open>const dateInfo = formatDate(item.timestamp)\<close>, shown as
  \<^verbatim>\<open>Will be permanently deleted in {dateInfo.daysLeft} days\<close>. The date passed is the
  record's \<open>timestamp\<close>, the time it was saved.
\<close>

definition trash_row :: "SavedTranscript \<Rightarrow> int \<Rightarrow> date_info option" where
  "trash_row item now_ms = formatDate (timestamp item) now_ms"

section \<open>The remote store: supabase/migrations\<close>

text \<open>
  The two tables of \<^verbatim>\<open>schema.sql\<close>, with the \<^verbatim>\<open>language\<close> column the second
  migration adds. Ids and timestamps are strings; the values the database generates
  (\<^verbatim>\<open>uuid_generate_v4()\<close>, \<^verbatim>\<open>NOW()\<close>) are inputs of the operations.
\<close>

record transcript_row =
  r_id :: string
  r_user_id :: string
  r_title :: string
  r_language :: string
  r_is_deleted :: bool
  r_created_at :: string
  r_updated_at :: string

record content_row =
  c_id :: string
  c_transcript_id :: string
  c_content :: string
  c_created_at :: string

record database =
  transcripts :: "transcript_row list"
  transcript_contents :: "content_row list"

text \<open>The error object of the backend client: \<^verbatim>\<open>{ code, message }\<close>.\<close>

record pg_error =
  e_code :: "string option"
  e_message :: "string option"

definition rls_violation :: pg_error where
  "rls_violation = \<lparr>e_code = Some ''42501'',
     e_message = Some ''new row violates row-level security policy''\<rparr>"

definition unique_violation :: pg_error where
  "unique_violation = \<lparr>e_code = Some ''23505'',
     e_message = Some ''duplicate key value violates unique constraint''\<rparr>"

definition not_single :: pg_error where
  "not_single = \<lparr>e_code = Some ''PGRST116'',
     e_message = Some ''JSON object requested, multiple (or no) rows returned''\<rparr>"

text \<open>
  The row-level policies. On \<^verbatim>\<open>transcripts\<close> every policy is
  \<^verbatim>\<open>auth.uid() = user_id\<close>; on \<^verbatim>\<open>transcript_contents\<close> every policy asks for a
  transcript of the caller with the content's \<^verbatim>\<open>transcript_id\<close>. \<open>uid\<close> is
  \<^verbatim>\<open>auth.uid()\<close>, \<open>None\<close> without a session.
\<close>

definition owns :: "string option \<Rightarrow> transcript_row \<Rightarrow> bool" where
  "owns uid r = (uid = Some (r_user_id r))"

definition owns_transcript :: "string option \<Rightarrow> database \<Rightarrow> string \<Rightarrow> bool" where
  "owns_transcript uid d t_id = list_ex (\<lambda>r. r_id r = t_id \<and> owns uid r) (transcripts d)"

text \<open>
  Each request takes its \<open>fault\<close>: \<open>Some e\<close> when the backend answers the request with
  the error \<open>e\<close> (network, server) and changes nothing. Otherwise the statement runs
  under the policies: an \<^verbatim>\<open>INSERT\<close> whose \<^verbatim>\<open>WITH CHECK\<close> fails is an error; an
  \<^verbatim>\<open>UPDATE\<close> or \<^verbatim>\<open>DELETE\<close> only sees the rows its \<^verbatim>\<open>USING\<close> admits and is no
  error when it sees none. Deleting a transcript deletes its contents
  (\<^verbatim>\<open>ON DELETE CASCADE\<close>).
\<close>

definition insert_transcript ::
  "string option \<Rightarrow> pg_error option \<Rightarrow> transcript_row \<Rightarrow> database \<Rightarrow> (pg_error + string) \<times> database" where
  "insert_transcript uid fault row d =
     (case fault of
        Some e \<Rightarrow> (Inl e, d)
      | None \<Rightarrow>
          if \<not> owns uid row then (Inl rls_violation, d)
          else if r_id row \<in> r_id ` set (transcripts d) then (Inl unique_violation, d)
          else (Inr (r_id row), d\<lparr>transcripts := transcripts d @ [row]\<rparr>))"

definition insert_content ::
  "string option \<Rightarrow> pg_error option \<Rightarrow> content_row \<Rightarrow> database \<Rightarrow> pg_error option \<times> database" where
  "insert_content uid fault row d =
     (case fault of
        Some e \<Rightarrow> (Some e, d)
      | None \<Rightarrow>
          if \<not> owns_transcript uid d (c_transcript_id row) then (Some rls_violation, d)
          else if c_id row \<in> c_id ` set (transcript_contents d) then (Some unique_violation, d)
          else (None, d\<lparr>transcript_contents := transcript_contents d @ [row]\<rparr>))"

definition update_transcripts ::
  "string option \<Rightarrow> pg_error option \<Rightarrow> (transcript_row \<Rightarrow> bool) \<Rightarrow>
   (transcript_row \<Rightarrow> transcript_row) \<Rightarrow> database \<Rightarrow> pg_error option \<times> database" where
  "update_transcripts uid fault sel f d =
     (case fault of
        Some e \<Rightarrow> (Some e, d)
      | None \<Rightarrow>
          (None, d\<lparr>transcripts := map (\<lambda>r. if sel r \<and> owns uid r then f r else r) (transcripts d)\<rparr>))"

definition delete_transcripts ::
  "string option \<Rightarrow> pg_error option \<Rightarrow> (transcript_row \<Rightarrow> bool) \<Rightarrow> database \<Rightarrow>
   pg_error option \<times> database" where
  "delete_transcripts uid fault sel d =
     (case fault of
        Some e \<Rightarrow> (Some e, d)
      | None \<Rightarrow>
          (let gone = filter (\<lambda>r. sel r \<and> owns uid r) (transcripts d) in
           (None, \<lparr>transcripts = filter (\<lambda>r. \<not> (sel r \<and> owns uid r)) (transcripts d),
                   transcript_contents =
                     filter (\<lambda>c. c_transcript_id c \<notin> r_id ` set gone) (transcript_contents d)\<rparr>)))"


text \<open>
  \<^verbatim>\<open>.single()\<close>: the rows the \<^verbatim>\<open>SELECT\<close> policy shows must be exactly one.
\<close>

definition single :: "pg_error option \<Rightarrow> 'a list \<Rightarrow> pg_error + 'a" where
  "single fault rows =
     (case fault of
        Some e \<Rightarrow> Inl e
      | None \<Rightarrow> (case rows of [r] \<Rightarrow> Inr r | _ \<Rightarrow> Inl not_single))"

definition select_transcripts :: "string option \<Rightarrow> (transcript_row \<Rightarrow> bool) \<Rightarrow> database \<Rightarrow> transcript_row list" where
  "select_transcripts uid sel d = filter (\<lambda>r. sel r \<and> owns uid r) (transcripts d)"

definition select_contents :: "string option \<Rightarrow> (content_row \<Rightarrow> bool) \<Rightarrow> database \<Rightarrow> content_row list" where
  "select_contents uid sel d =
     filter (\<lambda>c. sel c \<and> owns_transcript uid d (c_transcript_id c)) (transcript_contents d)"

section \<open>The save endpoint: app/api/save-transcript/route.ts\<close>

text \<open>\<^verbatim>\<open>String.prototype.includes\<close>\<close>

fun startsWith :: "string \<Rightarrow> string \<Rightarrow> bool" where
  "startsWith s [] = True"
| "startsWith [] (p # ps) = False"
| "startsWith (c # cs) (p # ps) = (c = p \<and> startsWith cs ps)"

fun js_includes :: "string \<Rightarrow> string \<Rightarrow> bool" where
  "js_includes [] sub = (sub = [])"
| "js_includes (c # cs) sub = (startsWith (c # cs) sub \<or> js_includes cs sub)"

datatype response_body =
  ErrorBody string
| SuccessBody string string

record response =
  status :: nat
  body :: response_body

text \<open>
  \<^verbatim>\<open>handleApiError\<close>; the logging is left out. \<open>SuccessBody message transcriptId\<close> is
  the body \<^verbatim>\<open>{ success: true, message, transcriptId }\<close>, \<open>ErrorBody e\<close> is
  \<^verbatim>\<open>{ error: e }\<close>.
\<close>

definition handleApiError :: "pg_error \<Rightarrow> string \<Rightarrow> response" where
  "handleApiError error context' =
     (if e_code error = Some ''42501'' then
        \<lparr>status = 403, body = ErrorBody ''Permission denied. Check your RLS policies.''\<rparr>
      else if (case e_message error of None \<Rightarrow> False | Some m \<Rightarrow> js_includes m ''JWT'') then
        \<lparr>status = 401, body = ErrorBody ''Invalid or expired authentication token''\<rparr>
      else
        \<lparr>status = 500, body = ErrorBody (''Failed to '' @ context' @ '': ''
             @ opt_or (e_message error) ''Unknown error'')\<rparr>)"

text \<open>
  The JSON body of the request, or the exception \<^verbatim>\<open>request.json()\<close> throws.
\<close>

record save_request =
  rq_transcript :: "string option"
  rq_title :: "string option"
  rq_userId :: "string option"
  rq_language :: "string option"

datatype request_json = BadJson string | Json save_request

text \<open>
  What the backend does during one call of the endpoint: the answer of
  \<^verbatim>\<open>supabase.auth.getUser()\<close> (an error, or the session's user id, or no user), the
  id and time the database gives the new rows, and the fault of each of the three
  statements.
\<close>

record post_env =
  getUser :: "pg_error + string option"
  new_transcript_id :: string
  new_content_id :: string
  db_now :: string
  fault_insert_transcript :: "pg_error option"
  fault_insert_content :: "pg_error option"
  fault_delete :: "pg_error option"

datatype db_call =
  GetUser
| InsertTranscript
| InsertContent string
| DeleteTranscript string
| DeleteContents string
| SelectTranscript string
| SelectContent string

record server =
  db :: database
  calls :: "db_call list"

definition POST :: "request_json \<Rightarrow> post_env \<Rightarrow> server \<Rightarrow> response \<times> server" where
  "POST request env s =
     (case request of
        BadJson m \<Rightarrow> (handleApiError \<lparr>e_code = None, e_message = Some m\<rparr> ''process request'', s)
      | Json rq \<Rightarrow>
          if \<not> truthy (rq_transcript rq) then
            (\<lparr>status = 400, body = ErrorBody ''Transcript is required''\<rparr>, s)
          else if \<not> truthy (rq_userId rq) then
            (\<lparr>status = 400, body = ErrorBody ''User ID is required''\<rparr>, s)
          else
            (let s1 = s\<lparr>calls := calls s @ [GetUser]\<rparr> in
             case getUser env of
               Inl userError \<Rightarrow> (handleApiError userError ''authenticate user'', s1)
             | Inr None \<Rightarrow>
                 (\<lparr>status = 401, body = ErrorBody ''You must be logged in to save transcripts''\<rparr>, s1)
             | Inr (Some user_id) \<Rightarrow>
                 if Some user_id \<noteq> rq_userId rq then
                   (\<lparr>status = 403, body = ErrorBody
                      ''User ID mismatch. You can only create transcripts for your own account.''\<rparr>, s1)
                 else
                   (case insert_transcript (Some user_id) (fault_insert_transcript env)
                           \<lparr>r_id = new_transcript_id env, r_user_id = user_id,
                            r_title = opt_or (rq_title rq) ''New Transcript'',
                            r_language = opt_or (rq_language rq) ''en-US'',
                            r_is_deleted = False,
                            r_created_at = db_now env, r_updated_at = db_now env\<rparr> (db s1) of
                      (Inl transcriptError, d2) \<Rightarrow>
                        (handleApiError transcriptError ''create transcript'',
                         s1\<lparr>db := d2, calls := calls s1 @ [InsertTranscript]\<rparr>)
                    | (Inr transcriptId, d2) \<Rightarrow>
                        (case insert_content (Some user_id) (fault_insert_content env)
                                \<lparr>c_id = new_content_id env, c_transcript_id = transcriptId,
                                 c_content = opt_or (rq_transcript rq) [],
                                 c_created_at = db_now env\<rparr> d2 of
                           (Some contentError, d3) \<Rightarrow>
                             (handleApiError contentError ''save transcript content'',
                              s1\<lparr>db := snd (delete_transcripts (Some user_id) (fault_delete env)
                                              (\<lambda>r. r_id r = transcriptId) d3),
                                 calls := calls s1 @ [InsertTranscript, InsertContent transcriptId,
                                                      DeleteTranscript transcriptId]\<rparr>)
                         | (None, d3) \<Rightarrow>
                             (\<lparr>status = 200,
                               body = SuccessBody ''Transcript saved successfully'' transcriptId\<rparr>,
                              s1\<lparr>db := d3, calls := calls s1 @ [InsertTranscript,
                                                      InsertContent transcriptId]\<rparr>)))))"

section \<open>The remote services: services/transcript-service.ts\<close>


definition softDeleteTranscript ::
  "string option \<Rightarrow> string \<Rightarrow> pg_error option \<Rightarrow> string \<Rightarrow> database \<Rightarrow> bool \<times> database" where
  "softDeleteTranscript uid now fault transcriptId d =
     (case update_transcripts uid fault (\<lambda>r. r_id r = transcriptId)
             (\<lambda>r. r\<lparr>r_is_deleted := True, r_updated_at := now\<rparr>) d of
        (Some error, d1) \<Rightarrow> (False, d1)
      | (None, d1) \<Rightarrow> (True, d1))"



section \<open>The caching service: getTranscript and deleteTranscript\<close>

text \<open>
  The module-level \<^verbatim>\<open>transcriptCache\<close>, a \<^verbatim>\<open>Map\<close> from transcript id to the
  fetched payload and the time of the fetch in milliseconds. The state of the service
  is the remote database, the cache and the requests sent so far.
\<close>

record payload =
  p_row :: transcript_row
  p_content :: string

record cache_entry =
  ce_data :: payload
  ce_timestamp :: int

record cached_service =
  remote :: database
  transcriptCache :: "string \<rightharpoonup> cache_entry"
  requests :: "db_call list"

definition CACHE_TTL :: int where
  "CACHE_TTL = 5 * 60 * 1000"

text \<open>\<open>now\<close> is \<^verbatim>\<open>Date.now()\<close>.\<close>

definition isCacheExpired :: "int \<Rightarrow> int \<Rightarrow> bool" where
  "isCacheExpired now ts = (now - ts > CACHE_TTL)"

definition clearExpiredCache :: "int \<Rightarrow> (string \<rightharpoonup> cache_entry) \<Rightarrow> (string \<rightharpoonup> cache_entry)" where
  "clearExpiredCache now cache =
     (\<lambda>key. case cache key of
               None \<Rightarrow> None
             | Some v \<Rightarrow> if isCacheExpired now (ce_timestamp v) then None else Some v)"

text \<open>
  \<^verbatim>\<open>getTranscript\<close>. \<open>t_call\<close> is the clock at the cache check, \<open>t_done\<close> the clock
  once the two selects have answered, read for the new entry's timestamp and for the
  sweep that follows in the same synchronous step. A failure is the message of the
  \<^verbatim>\<open>Error\<close> thrown to the caller; the error toast is left out.
\<close>

definition getTranscript ::
  "string \<Rightarrow> string option \<Rightarrow> int \<Rightarrow> int \<Rightarrow> pg_error option \<Rightarrow> pg_error option \<Rightarrow> cached_service
   \<Rightarrow> (string + payload) \<times> cached_service" where
  "getTranscript i uid t_call t_done fault_transcript fault_content w =
     (case (case transcriptCache w i of
              None \<Rightarrow> None
            | Some cached \<Rightarrow>
                if \<not> isCacheExpired t_call (ce_timestamp cached) then Some (ce_data cached)
                else None) of
        Some hit \<Rightarrow> (Inr hit, w)
      | None \<Rightarrow>
          (let w1 = w\<lparr>requests := requests w @ [SelectTranscript i]\<rparr> in
           case single fault_transcript
                  (select_transcripts uid (\<lambda>r. r_id r = i) (remote w)) of
             Inl transcriptError \<Rightarrow>
               (Inl (plus_message ''Failed to fetch transcript: '' (e_message transcriptError)), w1)
           | Inr t \<Rightarrow>
               (let w2 = w1\<lparr>requests := requests w1 @ [SelectContent i]\<rparr> in
                case single fault_content
                       (select_contents uid (\<lambda>c. c_transcript_id c = i) (remote w)) of
                  Inl contentError \<Rightarrow>
                    (Inl (plus_message ''Failed to fetch transcript content: ''
                           (e_message contentError)), w2)
                | Inr content \<Rightarrow>
                    (let result = \<lparr>p_row = t, p_content = c_content content\<rparr> in
                     (Inr result,
                      w2\<lparr>transcriptCache :=
                           clearExpiredCache t_done
                             ((transcriptCache w2)(i \<mapsto>
                                \<lparr>ce_data = result, ce_timestamp = t_done\<rparr>))\<rparr>)))))"


section \<open>Saving from the browser: transcriptService.saveTranscriptToServer\<close>

text \<open>
  What the \<^verbatim>\<open>fetch\<close> of one attempt comes to: the promise rejects, or
  \<^verbatim>\<open>response.json()\<close> throws, with an \<^verbatim>\<open>Error\<close> of the given message; or a response
  arrives, with its \<^verbatim>\<open>ok\<close> flag and the parsed body. A missing \<^verbatim>\<open>success\<close> in the
  body is \<open>False\<close>, as the caller only tests its truthiness.
\<close>

record api_data =
  d_success :: bool
  d_message :: "string option"
  d_error :: "string option"
  d_transcriptId :: "string option"

datatype fetch_result =
  Rejected string
| HttpResponse bool api_data

record save_result =
  success :: bool
  message :: "string option"
  transcriptId :: "string option"

text \<open>
  What the browser side does to the outside, in order: a request to
  \<^verbatim>\<open>/api/save-transcript\<close> with its body, a \<^verbatim>\<open>setTimeout\<close> wait in milliseconds, a
  toast with its title and description, a call of \<^verbatim>\<open>onTranscriptCreated\<close>.
\<close>

datatype toast_kind = ToastInfo | ToastSuccess | ToastError

datatype event =
  Fetch save_request
| Wait nat
| Toast toast_kind string string
| TranscriptCreated string

record client =
  local_store :: localStorage
  events :: "event list"

text \<open>
  \<^verbatim>\<open>saveTranscriptToServer\<close> of services/transcriptService.ts. It catches every
  exception and returns a result; after an \<^verbatim>\<open>ok\<close> response it mirrors the text into
  the local store. \<open>at_ms\<close> and \<open>at_iso\<close> are the clock readings of that local write.
\<close>

definition saveTranscriptToServer ::
  "string \<Rightarrow> string \<Rightarrow> string option \<Rightarrow> string option \<Rightarrow> fetch_result \<Rightarrow> string \<Rightarrow> string
   \<Rightarrow> client \<Rightarrow> save_result \<times> client" where
  "saveTranscriptToServer text' lang uid title outcome at_ms at_iso w =
     (if \<not> truthy uid then
        (\<lparr>success = False, message = Some ''User ID is required'', transcriptId = None\<rparr>, w)
      else
        (let w1 = w\<lparr>events := events w @
                   [Fetch \<lparr>rq_transcript = Some text', rq_title = title, rq_userId = uid,
                           rq_language = Some lang\<rparr>]\<rparr> in
         case outcome of
           Rejected m \<Rightarrow> (\<lparr>success = False, message = Some m, transcriptId = None\<rparr>, w1)
         | HttpResponse ok data \<Rightarrow>
             if \<not> ok then
               (\<lparr>success = False,
                 message = Some (opt_or (d_error data) ''Failed to save transcript''),
                 transcriptId = None\<rparr>, w1)
             else
               (\<lparr>success = d_success data, message = d_message data,
                 transcriptId = d_transcriptId data\<rparr>,
                w1\<lparr>local_store :=
                     storeTranscriptLocally text' lang uid at_ms at_iso (local_store w1)\<rparr>)))"

section \<open>The recorder: components/SpeechToText.tsx\<close>

text \<open>
  \<^verbatim>\<open>String.prototype.trim\<close> and \<^verbatim>\<open>split(/\s+/)\<close>. Characters are the 8-bit
  characters of \<open>string\<close>; among them JavaScript's white space is tab, line feed,
  vertical tab, form feed, carriage return, space and the no-break space.
\<close>

definition is_ws :: "char \<Rightarrow> bool" where
  "is_ws c = (c = CHR 0x09 \<or> c = CHR 0x0A \<or> c = CHR 0x0B \<or> c = CHR 0x0C \<or> c = CHR 0x0D
              \<or> c = CHR 0x20 \<or> c = CHR 0xA0)"

definition trim :: "string \<Rightarrow> string" where
  "trim s = rev (dropWhile is_ws (rev (dropWhile is_ws s)))"

text \<open>
  \<open>split_ws cur s\<close> splits \<open>s\<close> at every maximal run of white space; \<open>cur\<close> holds
  the piece being read, reversed.
\<close>

fun split_ws :: "string \<Rightarrow> string \<Rightarrow> string list" where
  "split_ws cur [] = [rev cur]"
| "split_ws cur [c] = (if is_ws c then [rev cur, []] else [rev (c # cur)])"
| "split_ws cur (c # d # cs) =
     (if is_ws c then
        (if is_ws d then split_ws cur (d # cs) else rev cur # split_ws [] (d # cs))
      else split_ws (c # cur) (d # cs))"

fun join_space :: "string list \<Rightarrow> string" where
  "join_space [] = []"
| "join_space [w] = w"
| "join_space (w # v # ws) = w @ '' '' @ join_space (v # ws)"

text \<open>
  The title of a save: the first five words, with \<^verbatim>\<open>'...'\<close> when there are more.
\<close>

definition make_title :: "string \<Rightarrow> string" where
  "make_title finalText =
     (let words = split_ws [] (trim finalText) in
      join_space (take 5 words) @ (if length words > 5 then ''...'' else []))"

text \<open>
  The component's state as far as saving reads or writes it. \<open>transcript\<close> is the
  text of the speech-recognition hook, which \<^verbatim>\<open>resetTranscript()\<close> empties. A handler
  reads the state of the render that created it: \<open>authError\<close> in particular is the
  value of that render, and \<^verbatim>\<open>setAuthError(true)\<close> only shows in the state handed
  back.
\<close>

record recorder =
  userDetails_id :: "string option"
  transcript :: string
  currentTranscript :: string
  editedTranscript :: string
  isEditing :: bool
  selectedLanguage :: string
  authError :: bool
  serverSaving :: bool
  has_onTranscriptCreated :: bool

text \<open>
  The outside of one save: the result of the \<open>n\<close>-th request (counted from 0) and
  the clock readings of the local write.
\<close>

record save_env =
  fetch :: "nat \<Rightarrow> fetch_result"
  clock_ms :: string
  clock_iso :: string

definition storeLocally :: "string \<Rightarrow> save_env \<Rightarrow> recorder \<Rightarrow> client \<Rightarrow> recorder \<times> client" where
  "storeLocally text' env c w =
     (if trim text' = [] then (c, w)
      else
        (c\<lparr>transcript := [], currentTranscript := []\<rparr>,
         w\<lparr>local_store := storeTranscriptLocally text' (selectedLanguage c) (userDetails_id c)
                             (clock_ms env) (clock_iso env) (local_store w)\<rparr>))"

definition maxRetries :: nat where
  "maxRetries = 2"

text \<open>The messages after which the loop does not retry.\<close>

definition is_auth_message :: "string \<Rightarrow> bool" where
  "is_auth_message m =
     (js_includes m ''Authentication failed'' \<or> js_includes m ''Invalid authentication token''
      \<or> js_includes m ''Auth session missing'' \<or> js_includes m ''You must be logged in'')"

text \<open>
  The \<^verbatim>\<open>while (retries <= maxRetries && !savedSuccessfully)\<close> loop of
  \<^verbatim>\<open>saveToServer\<close>. \<^verbatim>\<open>saveTranscriptToServer\<close> returns a result in every case, so
  the loop's own \<^verbatim>\<open>catch\<close> is not entered. After a success the loop condition is
  false, after an authentication message the loop is left by \<^verbatim>\<open>break\<close>: both end
  the recursion.
\<close>

record loop_state =
  retries :: nat
  savedSuccessfully :: bool
  lastError :: "string option"
  component :: recorder
  world :: client

function save_loop :: "save_env \<Rightarrow> string \<Rightarrow> string \<Rightarrow> string \<Rightarrow> loop_state \<Rightarrow> loop_state" where
  "save_loop env finalText uid title st =
     (if retries st \<le> maxRetries \<and> \<not> savedSuccessfully st then
        (let r = saveTranscriptToServer finalText (selectedLanguage (component st)) (Some uid)
                   (Some title) (fetch env (retries st)) (clock_ms env) (clock_iso env) (world st);
             result = fst r; w1 = snd r in
         if success result then
           st\<lparr>savedSuccessfully := True,
              component := (component st)\<lparr>transcript := [], currentTranscript := []\<rparr>,
              world := w1\<lparr>events := events w1 @
                  [Toast ToastSuccess ''Saved to server''
                     ''Your transcript has been saved successfully''] @
                  (if has_onTranscriptCreated (component st) \<and> truthy (transcriptId result)
                   then [TranscriptCreated (opt_or (transcriptId result) [])] else [])\<rparr>\<rparr>
         else
           (let errorMessage = opt_or (message result) ''Unknown error'' in
            if is_auth_message errorMessage then
              st\<lparr>lastError := Some errorMessage, component := (component st)\<lparr>authError := True\<rparr>,
                 world := w1\<rparr>
            else
              save_loop env finalText uid title
                (st\<lparr>lastError := Some errorMessage, retries := retries st + 1,
                    world := (if retries st + 1 \<le> maxRetries
                              then w1\<lparr>events := events w1 @ [Wait 1000]\<rparr> else w1)\<rparr>)))
      else st)"
  by pat_completeness auto
termination
  by (relation "measure (\<lambda>(env, finalText, uid, title, st). Suc maxRetries - retries st)") auto

declare save_loop.simps [simp del]

text \<open>
  \<^verbatim>\<open>saveToServer\<close>. The test \<^verbatim>\<open>!savedSuccessfully && !authError\<close> after the loop
  reads \<open>authError\<close> of the render that created the handler, \<open>authError c\<close>. Nothing
  in the body throws once \<^verbatim>\<open>saveTranscriptToServer\<close> returns results and the local
  store accepts writes, so the outer \<^verbatim>\<open>catch\<close> has no branch; \<^verbatim>\<open>finally\<close> resets
  \<open>serverSaving\<close> on every path that set it.
\<close>

definition saveToServer :: "string \<Rightarrow> save_env \<Rightarrow> recorder \<Rightarrow> client \<Rightarrow> recorder \<times> client" where
  "saveToServer textToSave env c w =
     (let finalText = or_else textToSave (or_else (currentTranscript c) (transcript c)) in
      if trim finalText = [] then (c, w)
      else
        (let title = make_title finalText in
         if \<not> truthy (userDetails_id c) then
           (let l = storeLocally finalText env (c\<lparr>serverSaving := True\<rparr>) w in
            ((fst l)\<lparr>serverSaving := False\<rparr>,
             (snd l)\<lparr>events := events (snd l) @
                [Toast ToastInfo ''Saved locally'' ''Log in to save transcripts to your account'']\<rparr>))
         else
           (let st = save_loop env finalText (opt_or (userDetails_id c) []) title
                       \<lparr>retries = 0, savedSuccessfully = False, lastError = None,
                        component = c\<lparr>serverSaving := True\<rparr>, world = w\<rparr> in
            if \<not> savedSuccessfully st \<and> \<not> authError c then
              (let l = storeLocally finalText env (component st) (world st) in
               ((fst l)\<lparr>serverSaving := False\<rparr>,
                (snd l)\<lparr>events := events (snd l) @
                   [Toast ToastError ''Failed to save to server''
                      (''Saved locally instead. Error: ''
                         @ opt_or (lastError st) ''Unknown error'')]\<rparr>))
            else ((component st)\<lparr>serverSaving := False\<rparr>, world st))))"

text \<open>\<^verbatim>\<open>handleManualSave\<close>, the handler of the save button and of Ctrl+Enter.\<close>

definition handleManualSave :: "save_env \<Rightarrow> recorder \<Rightarrow> client \<Rightarrow> recorder \<times> client" where
  "handleManualSave env c w =
     (if trim (editedTranscript c) \<noteq> [] then
        (let r = saveToServer (editedTranscript c) env c w in
         ((fst r)\<lparr>isEditing := False, editedTranscript := [], transcript := [],
                  currentTranscript := []\<rparr>, snd r))
      else (c, w\<lparr>events := events w @ [Toast ToastError ''Cannot save empty transcript'' []]\<rparr>))"

text \<open>
  The \<^verbatim>\<open>keydown\<close> handler of the editing mode. The effect that registers it on
  \<^verbatim>\<open>window\<close> returns at once unless \<open>isEditing\<close>; it stands above the early returns
  of the component, so it is registered in every render that edits, whatever is
  displayed. Ctrl+Enter or Cmd+Enter saves.
\<close>

record key_event =
  ctrlKey :: bool
  metaKey :: bool
  key_name :: string

definition editKeyDown :: "key_event \<Rightarrow> save_env \<Rightarrow> recorder \<Rightarrow> client \<Rightarrow> recorder \<times> client" where
  "editKeyDown e env c w =
     (if \<not> isEditing c then (c, w)
      else if (ctrlKey e \<or> metaKey e) \<and> key_name e = ''Enter'' then
        (if trim (editedTranscript c) \<noteq> [] then handleManualSave env c w else (c, w))
      else (c, w))"

section \<open>Names for the outcomes of a request\<close>

text \<open>
  The message of the \<^verbatim>\<open>Error\<close> that \<^verbatim>\<open>saveTranscriptToServer\<close> catches when the
  request is rejected or its response is not \<^verbatim>\<open>ok\<close>, and the text the loop of
  \<^verbatim>\<open>saveToServer\<close> then classifies. A failure is an authentication failure when
  that text is one of the loop's authentication messages, and transient otherwise.
\<close>

definition thrown_message :: "fetch_result \<Rightarrow> string" where
  "thrown_message fr =
     (case fr of
        Rejected m \<Rightarrow> m
      | HttpResponse ok d \<Rightarrow> opt_or (d_error d) ''Failed to save transcript'')"

definition failure_text :: "fetch_result \<Rightarrow> string" where
  "failure_text fr = or_else (thrown_message fr) ''Unknown error''"

definition remote_failure :: "fetch_result \<Rightarrow> bool" where
  "remote_failure fr = (case fr of Rejected m \<Rightarrow> True | HttpResponse ok d \<Rightarrow> \<not> ok)"

definition transient_failure :: "fetch_result \<Rightarrow> bool" where
  "transient_failure fr = (remote_failure fr \<and> \<not> is_auth_message (failure_text fr))"

definition auth_failure :: "fetch_result \<Rightarrow> bool" where
  "auth_failure fr = (remote_failure fr \<and> is_auth_message (failure_text fr))"

text \<open>The body of the request a save sends.\<close>

definition sent_request :: "string \<Rightarrow> string \<Rightarrow> string \<Rightarrow> string \<Rightarrow> save_request" where
  "sent_request finalText title uid lang =
     \<lparr>rq_transcript = Some finalText, rq_title = Some title, rq_userId = Some uid,
      rq_language = Some lang\<rparr>"

section \<open>Concrete saves\<close>

text \<open>
  A signed-in user saves \<open>''hello world''\<close>. With \<open>env_down\<close> the network is down
  at every attempt; with \<open>env_expired\<close> the endpoint answers 401 for a missing
  session.
\<close>

definition recorder0 :: recorder where
  "recorder0 = \<lparr>userDetails_id = Some ''u1'', transcript = [], currentTranscript = [],
     editedTranscript = ''hello world'', isEditing = True, selectedLanguage = ''en-US'',
     authError = False, serverSaving = False, has_onTranscriptCreated = True\<rparr>"

definition client0 :: client where
  "client0 = \<lparr>local_store = \<lparr>savedTranscripts = None, setItem_calls = 0\<rparr>, events = []\<rparr>"

definition env_down :: save_env where
  "env_down = \<lparr>fetch = (\<lambda>n. Rejected ''Failed to fetch''), clock_ms = ''1704067200000'',
     clock_iso = ''2024-01-01T00:00:00.000Z''\<rparr>"

definition env_expired :: save_env where
  "env_expired = \<lparr>fetch = (\<lambda>n. HttpResponse False
       \<lparr>d_success = False, d_message = None,
        d_error = Some ''You must be logged in to save transcripts'', d_transcriptId = None\<rparr>),
     clock_ms = ''1704067200000'', clock_iso = ''2024-01-01T00:00:00.000Z''\<rparr>"

text \<open>
  \<open>recorder_stale\<close> is the same editing state in a render whose \<open>authError\<close> is
  \<open>True\<close>. With \<open>env_bad_token\<close> the endpoint's \<^verbatim>\<open>getUser\<close> fails for an expired
  token; \<open>env_jwt\<close> is the browser's view of the answer the endpoint then gives.
\<close>

definition recorder_stale :: recorder where
  "recorder_stale = recorder0\<lparr>authError := True\<rparr>"

definition ctrl_enter :: key_event where
  "ctrl_enter = \<lparr>ctrlKey = True, metaKey = False, key_name = ''Enter''\<rparr>"

definition env_jwt :: save_env where
  "env_jwt = \<lparr>fetch = (\<lambda>n. HttpResponse False
       \<lparr>d_success = False, d_message = None,
        d_error = Some ''Invalid or expired authentication token'', d_transcriptId = None\<rparr>),
     clock_ms = ''1704067200000'', clock_iso = ''2024-01-01T00:00:00.000Z''\<rparr>"

definition fetch_hello :: event where
  "fetch_hello = Fetch \<lparr>rq_transcript = Some ''hello world'', rq_title = Some ''hello world'',
     rq_userId = Some ''u1'', rq_language = Some ''en-US''\<rparr>"

section \<open>Concrete stores\<close>

text \<open>
  A store of two users. Record \<open>''1''\<close> of user \<open>''u2''\<close> was moved to the trash on
  1 January 2024; record \<open>''2''\<close> of user \<open>''u1''\<close> is active.
\<close>

definition trashed_rec :: SavedTranscript where
  "trashed_rec = \<lparr>tid = ''1'', ttext = ''hello world'', timestamp = ''2023-12-31T00:00:00.000Z'',
     deletedAt = Some ''2024-01-01T00:00:00.000Z'', language = Some ''en-US'',
     userId = Some ''u2''\<rparr>"

definition active_rec :: SavedTranscript where
  "active_rec = \<lparr>tid = ''2'', ttext = ''good morning'', timestamp = ''2024-01-05T00:00:00.000Z'',
     deletedAt = None, language = Some ''en-US'', userId = Some ''u1''\<rparr>"

definition store0 :: localStorage where
  "store0 = \<lparr>savedTranscripts = Some [trashed_rec, active_rec], setItem_calls = 0\<rparr>"

section \<open>Concrete requests\<close>

text \<open>
  User \<open>''u1''\<close> saves \<open>''hello world''\<close> into an empty database; the insert of the
  content fails with a server error. In \<open>env_orphan\<close> the compensating delete fails as
  well.
\<close>

definition server_error :: pg_error where
  "server_error = \<lparr>e_code = Some ''08006'', e_message = Some ''connection failure''\<rparr>"

definition rq_hello :: save_request where
  "rq_hello = \<lparr>rq_transcript = Some ''hello world'', rq_title = Some ''hello world'',
     rq_userId = Some ''u1'', rq_language = Some ''en-US''\<rparr>"

definition env_content_fails :: post_env where
  "env_content_fails = \<lparr>getUser = Inr (Some ''u1''), new_transcript_id = ''t1'',
     new_content_id = ''c1'', db_now = ''2024-01-01T00:00:00.000Z'',
     fault_insert_transcript = None, fault_insert_content = Some server_error,
     fault_delete = None\<rparr>"

definition env_orphan :: post_env where
  "env_orphan = env_content_fails\<lparr>fault_delete := Some server_error\<rparr>"


definition env_bad_token :: post_env where
  "env_bad_token = env_content_fails\<lparr>getUser :=
     Inl \<lparr>e_code = None, e_message = Some ''invalid JWT: token is expired''\<rparr>\<rparr>"

definition server0 :: server where
  "server0 = \<lparr>db = \<lparr>transcripts = [], transcript_contents = []\<rparr>, calls = []\<rparr>"

definition row_hello :: transcript_row where
  "row_hello = \<lparr>r_id = ''t1'', r_user_id = ''u1'', r_title = ''hello world'',
     r_language = ''en-US'', r_is_deleted = False,
     r_created_at = ''2024-01-01T00:00:00.000Z'', r_updated_at = ''2024-01-01T00:00:00.000Z''\<rparr>"



section \<open>Concrete remote states\<close>

text \<open>
  The database holds the transcript \<open>''t1''\<close> of user \<open>''u1''\<close> with one content row and
  the transcript \<open>''t2''\<close> of user \<open>''u2''\<close>. The cache of \<open>service0\<close> holds the payload
  of \<open>''t1''\<close> and an entry for \<open>''t0''\<close>, both fetched at time \<open>0\<close>.
\<close>

definition content_hello :: content_row where
  "content_hello = \<lparr>c_id = ''c1'', c_transcript_id = ''t1'', c_content = ''hello world'',
     c_created_at = ''2024-01-01T00:00:00.000Z''\<rparr>"

definition row_other :: transcript_row where
  "row_other = \<lparr>r_id = ''t2'', r_user_id = ''u2'', r_title = ''private notes'',
     r_language = ''en-US'', r_is_deleted = False,
     r_created_at = ''2024-01-01T00:00:00.000Z'', r_updated_at = ''2024-01-01T00:00:00.000Z''\<rparr>"

definition db_hello :: database where
  "db_hello = \<lparr>transcripts = [row_hello, row_other], transcript_contents = [content_hello]\<rparr>"

definition payload_hello :: payload where
  "payload_hello = \<lparr>p_row = row_hello, p_content = ''hello world''\<rparr>"

definition service0 :: cached_service where
  "service0 = \<lparr>remote = db_hello,
     transcriptCache = [''t1'' \<mapsto> \<lparr>ce_data = payload_hello, ce_timestamp = 0\<rparr>,
                        ''t0'' \<mapsto> \<lparr>ce_data = payload_hello, ce_timestamp = 0\<rparr>],
     requests = []\<rparr>"


section \<open>Properties of the local store\<close>

lemma findIndex_None_iff: "findIndex P xs = None \<longleftrightarrow> (\<forall>x \<in> set xs. \<not> P x)"
  by (induction xs) auto

lemma getAll_None [simp]: "getAllTranscripts None ls = parsed ls"
  by (simp add: getAllTranscripts_def truthy_def)

lemma filter_neq_length_iff:
  "length (filter (\<lambda>t. f t \<noteq> i) xs) = length xs \<longleftrightarrow> i \<notin> f ` set xs"
proof (induction xs)
  case Nil
  then show ?case by simp
next
  case (Cons x xs)
  have le: "length (filter (\<lambda>t. f t \<noteq> i) xs) \<le> length xs"
    by (rule length_filter_le)
  show ?case
  proof (cases "f x = i")
    case True
    have "length (filter (\<lambda>t. f t \<noteq> i) xs) \<noteq> Suc (length xs)"
      using le by arith
    with True show ?thesis by simp
  next
    case False
    with Cons show ?thesis by auto
  qed
qed

text \<open>
  C10. For an id that does not occur in the local store, \<open>updateTranscript\<close>,
  \<open>moveToTrash\<close>, \<open>restoreFromTrash\<close> and \<open>permanentlyDelete\<close> each return
  \<open>False\<close> and hand back the storage exactly as it was: the same records and the same
  number of writes, so no \<^verbatim>\<open>setItem\<close> happened.
\<close>

theorem not_found_no_write:
  assumes "i \<notin> tid ` set (parsed ls)"
  shows "updateTranscript i newText ls = (False, ls)
       \<and> moveToTrash i now_iso ls = (False, ls)
       \<and> restoreFromTrash i ls = (False, ls)
       \<and> permanentlyDelete i ls = (False, ls)"
proof -
  from assms have "\<forall>t \<in> set (parsed ls). \<not> tid t = i" by auto
  then have idx: "findIndex (\<lambda>t. tid t = i) (parsed ls) = None"
    by (simp add: findIndex_None_iff)
  have len: "length (filter (\<lambda>t. tid t \<noteq> i) (parsed ls)) = length (parsed ls)"
    using assms by (simp add: filter_neq_length_iff)
  show ?thesis
    by (simp add: updateTranscript_def moveToTrash_def restoreFromTrash_def
        permanentlyDelete_def idx len)
qed

theorem not_found_no_write_witness:
  "''9'' \<notin> tid ` set (parsed store0)
   \<and> updateTranscript ''9'' ''x'' store0 = (False, store0)
   \<and> moveToTrash ''9'' ''2024-02-02T00:00:00.000Z'' store0 = (False, store0)
   \<and> restoreFromTrash ''9'' store0 = (False, store0)
   \<and> permanentlyDelete ''9'' store0 = (False, store0)"
proof -
  have h: "''9'' \<notin> tid ` set (parsed store0)"
    by (simp add: parsed_def store0_def trashed_rec_def active_rec_def)
  show ?thesis
    using h not_found_no_write [OF h, of "''x''" "''2024-02-02T00:00:00.000Z''"] by simp
qed

lemma find_findIndex:
  "find P xs = Some t \<Longrightarrow> \<exists>n. findIndex P xs = Some n \<and> xs ! n = t"
  by (induction xs) (auto split: if_splits)

lemma find_update_first:
  "findIndex P xs = Some n \<Longrightarrow> P y \<Longrightarrow> find P (xs[n := y]) = Some y"
proof (induction xs arbitrary: n)
  case Nil
  then show ?case by simp
next
  case (Cons x xs)
  show ?case
  proof (cases "P x")
    case True
    with Cons.prems show ?thesis by simp
  next
    case False
    with Cons.prems obtain m where m: "findIndex P xs = Some m" "n = Suc m"
      by auto
    from Cons.IH [OF m(1) Cons.prems(2)] False m(2) show ?thesis by simp
  qed
qed


lemma parsed_setItem [simp]: "parsed (setItem v ls) = v"
  by (simp add: parsed_def setItem_def)

text \<open>
  C9. \<open>emptyTrash\<close> always returns \<open>True\<close>. The records it writes back are exactly
  those without a (truthy) \<open>deletedAt\<close>, in their order and unchanged; hence afterwards
  the trash listing is empty under every user filter (records of all users are
  purged, the operation takes no user), and the listing of active records is what it
  was for every user.
\<close>

theorem emptyTrash_purges_all_users:
  "fst (emptyTrash ls) = True
   \<and> parsed (snd (emptyTrash ls)) = filter (\<lambda>t. \<not> truthy (deletedAt t)) (parsed ls)
   \<and> getTrashTranscripts uid (snd (emptyTrash ls)) = []
   \<and> getSavedTranscripts uid (snd (emptyTrash ls)) = getSavedTranscripts uid ls"
proof -
  have p: "parsed (snd (emptyTrash ls)) = filter (\<lambda>t. \<not> truthy (deletedAt t)) (parsed ls)"
    by (simp add: emptyTrash_def)
  have t: "getTrashTranscripts uid (snd (emptyTrash ls)) = []"
    unfolding getTrashTranscripts_def p by (simp add: filter_empty_conv)
  have a: "getSavedTranscripts uid (snd (emptyTrash ls)) = getSavedTranscripts uid ls"
    unfolding getSavedTranscripts_def p by (simp cong: conj_cong)
  show ?thesis using p t a by (simp add: emptyTrash_def)
qed

theorem emptyTrash_purges_all_users_witness:
  "fst (emptyTrash store0) = True
   \<and> parsed (snd (emptyTrash store0)) = [active_rec]
   \<and> getTrashTranscripts (Some ''u1'') (snd (emptyTrash store0)) = []
   \<and> getSavedTranscripts (Some ''u1'') (snd (emptyTrash store0)) = [active_rec]"
  using emptyTrash_purges_all_users [of store0 "Some ''u1''"]
  by (simp add: getSavedTranscripts_def parsed_def store0_def trashed_rec_def active_rec_def
      truthy_def)

lemma moveToTrash_found:
  assumes "getTranscriptById i None ls = Some t"
  shows "fst (moveToTrash i now_iso ls)
       \<and> getTranscriptById i None (snd (moveToTrash i now_iso ls))
           = Some (t\<lparr>deletedAt := Some now_iso\<rparr>)"
proof -
  from assms have f: "find (\<lambda>t. tid t = i) (parsed ls) = Some t"
    by (simp add: getTranscriptById_def)
  then obtain n where n: "findIndex (\<lambda>t. tid t = i) (parsed ls) = Some n" "parsed ls ! n = t"
    using find_findIndex by fastforce
  from f have "tid t = i" by (auto simp: find_Some_iff)
  then have "tid (t\<lparr>deletedAt := Some now_iso\<rparr>) = i" by simp
  then have "find (\<lambda>t. tid t = i) ((parsed ls)[n := t\<lparr>deletedAt := Some now_iso\<rparr>])
      = Some (t\<lparr>deletedAt := Some now_iso\<rparr>)"
    using find_update_first [OF n(1)] by fast
  then show ?thesis
    by (simp add: moveToTrash_def getTranscriptById_def n)
qed

lemma softDelete_own_row:
  assumes "r \<in> set (transcripts d)" and "owns uid r"
  shows "fst (softDeleteTranscript uid now None (r_id r) d)
       \<and> r\<lparr>r_is_deleted := True, r_updated_at := now\<rparr>
           \<in> set (transcripts (snd (softDeleteTranscript uid now None (r_id r) d)))"
proof -
  let ?g = "\<lambda>x. if r_id x = r_id r \<and> owns uid x
      then x\<lparr>r_is_deleted := True, r_updated_at := now\<rparr> else x"
  have "?g r \<in> ?g ` set (transcripts d)"
    using assms(1) by (rule imageI)
  then show ?thesis
    using assms(2) by (simp add: softDeleteTranscript_def update_transcripts_def)
qed

text \<open>
  C4, as the code has it. For an id found in the local store, \<open>moveToTrash\<close> returns
  \<open>True\<close> and stamps the first record of that id with the time of this call, whether
  or not the record already carried a \<open>deletedAt\<close>; the record's other fields stay.
  The remote \<open>softDeleteTranscript\<close> stores no \<open>deletedAt\<close>: on a row of the caller it
  sets \<open>is_deleted\<close> and stamps \<open>updated_at\<close> with the time of this call, again whether
  or not the row was already marked deleted.
\<close>

theorem moveToTrash_stamps_call_time:
  "(getTranscriptById i None ls = Some t
      \<longrightarrow> fst (moveToTrash i now_iso ls)
        \<and> getTranscriptById i None (snd (moveToTrash i now_iso ls))
            = Some (t\<lparr>deletedAt := Some now_iso\<rparr>))
   \<and> (r \<in> set (transcripts d) \<and> owns uid r
      \<longrightarrow> fst (softDeleteTranscript uid now None (r_id r) d)
        \<and> r\<lparr>r_is_deleted := True, r_updated_at := now\<rparr>
            \<in> set (transcripts (snd (softDeleteTranscript uid now None (r_id r) d))))"
  using moveToTrash_found [of i ls t now_iso] softDelete_own_row [of r d uid now] by blast

theorem moveToTrash_stamps_call_time_witness:
  "getTranscriptById ''1'' None store0 = Some trashed_rec
   \<and> fst (moveToTrash ''1'' ''2024-02-02T00:00:00.000Z'' store0)
   \<and> getTranscriptById ''1'' None (snd (moveToTrash ''1'' ''2024-02-02T00:00:00.000Z'' store0))
       = Some (trashed_rec\<lparr>deletedAt := Some ''2024-02-02T00:00:00.000Z''\<rparr>)
   \<and> row_hello\<lparr>r_is_deleted := True, r_updated_at := ''2024-02-02T00:00:00.000Z''\<rparr>
       \<in> set (transcripts (snd (softDeleteTranscript (Some ''u1'') ''2024-02-02T00:00:00.000Z''
                                 None ''t1'' db_hello)))"
proof -
  have h: "getTranscriptById ''1'' None store0 = Some trashed_rec"
    by (simp add: getTranscriptById_def parsed_def store0_def trashed_rec_def)
  have o: "row_hello \<in> set (transcripts db_hello) \<and> owns (Some ''u1'') row_hello"
    by (simp add: db_hello_def owns_def row_hello_def)
  have i: "r_id row_hello = ''t1''"
    by (simp add: row_hello_def)
  note a = moveToTrash_stamps_call_time [of "''1''" store0 trashed_rec
      "''2024-02-02T00:00:00.000Z''" row_hello db_hello "Some ''u1''"
      "''2024-02-02T00:00:00.000Z''"]
  have l1: "fst (moveToTrash ''1'' ''2024-02-02T00:00:00.000Z'' store0)
      \<and> getTranscriptById ''1'' None (snd (moveToTrash ''1'' ''2024-02-02T00:00:00.000Z'' store0))
          = Some (trashed_rec\<lparr>deletedAt := Some ''2024-02-02T00:00:00.000Z''\<rparr>)"
    using a [THEN conjunct1, THEN mp, OF h] .
  have l2: "row_hello\<lparr>r_is_deleted := True, r_updated_at := ''2024-02-02T00:00:00.000Z''\<rparr>
       \<in> set (transcripts (snd (softDeleteTranscript (Some ''u1'') ''2024-02-02T00:00:00.000Z''
                                 None ''t1'' db_hello)))"
    using a [THEN conjunct2, THEN mp, OF o, THEN conjunct2] unfolding i .
  show ?thesis
    using h l1 l2 by (intro conjI) simp_all
qed

text \<open>
  The claim C4 as written fails: record \<open>''1''\<close> is in the trash since 1 January;
  a second \<open>moveToTrash\<close> on 2 February replaces its \<open>deletedAt\<close>.
\<close>

theorem moveToTrash_twice_counterexample:
  "map_option deletedAt (getTranscriptById ''1'' None store0)
     = Some (Some ''2024-01-01T00:00:00.000Z'')
   \<and> map_option deletedAt
       (getTranscriptById ''1'' None (snd (moveToTrash ''1'' ''2024-02-02T00:00:00.000Z'' store0)))
     = Some (Some ''2024-02-02T00:00:00.000Z'')
   \<and> Some ''2024-02-02T00:00:00.000Z'' \<noteq> Some ''2024-01-01T00:00:00.000Z''"
  by (simp add: getTranscriptById_def moveToTrash_def parsed_def setItem_def store0_def
      trashed_rec_def active_rec_def)

lemma find_Some_ex: "x \<in> set xs \<Longrightarrow> P x \<Longrightarrow> \<exists>y. find P xs = Some y"
  by (cases "find P xs") (auto simp: find_None_iff)

lemma restore_found:
  assumes "getTranscriptById i None ls = Some t"
  shows "fst (restoreFromTrash i ls)
       \<and> getTranscriptById i None (snd (restoreFromTrash i ls)) = Some (t\<lparr>deletedAt := None\<rparr>)"
proof -
  from assms have f: "find (\<lambda>t. tid t = i) (parsed ls) = Some t"
    by (simp add: getTranscriptById_def)
  then obtain n where n: "findIndex (\<lambda>t. tid t = i) (parsed ls) = Some n" "parsed ls ! n = t"
    using find_findIndex by fastforce
  from f have "tid (t\<lparr>deletedAt := None\<rparr>) = i" by (auto simp: find_Some_iff)
  then have "find (\<lambda>t. tid t = i) ((parsed ls)[n := t\<lparr>deletedAt := None\<rparr>])
      = Some (t\<lparr>deletedAt := None\<rparr>)"
    using find_update_first [OF n(1)] by fast
  then show ?thesis
    by (simp add: restoreFromTrash_def getTranscriptById_def n)
qed

text \<open>
  The trash listing and \<open>restoreFromTrash\<close> never read a clock. A stored record with
  a \<open>deletedAt\<close>, whatever its age, is in the unfiltered trash listing and in the
  listing of every user filter that matches it, and \<open>restoreFromTrash\<close> on its id
  succeeds and leaves the first record of that id active.
\<close>

lemma trash_listing_ignores_age:
  assumes "t \<in> set (parsed ls)" and "truthy (deletedAt t)"
  shows "t \<in> set (getTrashTranscripts None ls)
       \<and> (t \<in> set (getTrashTranscripts uid ls) \<longleftrightarrow> (truthy uid \<longrightarrow> userId t = uid))
       \<and> fst (restoreFromTrash (tid t) ls)
       \<and> map_option deletedAt (getTranscriptById (tid t) None (snd (restoreFromTrash (tid t) ls)))
           = Some None"
proof -
  have l1: "t \<in> set (getTrashTranscripts None ls)"
    using assms by (simp add: getTrashTranscripts_def truthy_def)
  have l2: "t \<in> set (getTrashTranscripts uid ls) \<longleftrightarrow> (truthy uid \<longrightarrow> userId t = uid)"
    using assms by (auto simp: getTrashTranscripts_def)
  obtain t0 where t0: "getTranscriptById (tid t) None ls = Some t0"
    using find_Some_ex [OF assms(1), of "\<lambda>x. tid x = tid t"]
    by (auto simp: getTranscriptById_def)
  have l3: "fst (restoreFromTrash (tid t) ls)"
    and l4: "map_option deletedAt
        (getTranscriptById (tid t) None (snd (restoreFromTrash (tid t) ls))) = Some None"
    using restore_found [OF t0] by simp_all
  show ?thesis using l1 l2 l3 l4 by blast
qed

lemma getTime_examples:
  "getTime ''2023-12-31T00:00:00.000Z'' = Some 1703980800000"
  "getTime ''2024-01-01T00:00:00.000Z'' = Some 1704067200000"
  "getTime ''2024-02-02T00:00:00.000Z'' = Some 1706832000000"
  by (simp_all add: getTime_def digit_def days_from_civil_def)

text \<open>
  C3. The code breaks the claim; it has no sweep. Record \<open>''1''\<close> of \<open>store0\<close> was saved
  on 31 December 2023 and moved to the trash on 1 January 2024. On 2 February 2024 its
  \<open>deletedAt\<close> is 32 days old, more than the thirty of the retention window, and the
  record is still in its owner's trash listing; \<open>restoreFromTrash\<close> on it returns
  \<open>True\<close> and makes it active again. The row of the trash view announces a deletion in
  \<open>-3\<close> days, a figure counted from the day the record was saved.
\<close>

theorem expired_trash_listed_and_restorable:
  "deletedAt trashed_rec = Some ''2024-01-01T00:00:00.000Z''
   \<and> map_option (\<lambda>deleted. 30 * (1000 * 60 * 60 * 24) < 1706832000000 - deleted)
        (getTime ''2024-01-01T00:00:00.000Z'') = Some True
   \<and> trashed_rec \<in> set (getTrashTranscripts (Some ''u2'') store0)
   \<and> trashed_rec \<in> set (getTrashTranscripts None store0)
   \<and> fst (restoreFromTrash ''1'' store0) = True
   \<and> map_option deletedAt (getTranscriptById ''1'' None (snd (restoreFromTrash ''1'' store0)))
       = Some None
   \<and> trash_row trashed_rec 1706832000000 = Some \<lparr>daysAgo = 33, daysLeft = - 3\<rparr>"
proof -
  have d: "deletedAt trashed_rec = Some ''2024-01-01T00:00:00.000Z''"
    by (simp add: trashed_rec_def)
  have age: "map_option (\<lambda>deleted. 30 * (1000 * 60 * 60 * 24) < 1706832000000 - deleted)
      (getTime ''2024-01-01T00:00:00.000Z'') = Some True"
    by (simp add: getTime_examples)
  have h1: "trashed_rec \<in> set (parsed store0)"
    by (simp add: parsed_def store0_def)
  have h2: "truthy (deletedAt trashed_rec)"
    by (simp add: truthy_def trashed_rec_def)
  have u: "truthy (Some ''u2'') \<longrightarrow> userId trashed_rec = Some ''u2''"
    by (simp add: trashed_rec_def)
  have i: "tid trashed_rec = ''1''"
    by (simp add: trashed_rec_def)
  note a = trash_listing_ignores_age [OF h1 h2, of "Some ''u2''"]
  have l1: "trashed_rec \<in> set (getTrashTranscripts (Some ''u2'') store0)"
    using a u by blast
  have l2: "trashed_rec \<in> set (getTrashTranscripts None store0)"
    using a by blast
  have l3: "fst (restoreFromTrash ''1'' store0) = True"
    using a unfolding i by simp
  have l4: "map_option deletedAt
      (getTranscriptById ''1'' None (snd (restoreFromTrash ''1'' store0))) = Some None"
    using a unfolding i by blast
  have row: "trash_row trashed_rec 1706832000000 = Some \<lparr>daysAgo = 33, daysLeft = - 3\<rparr>"
    by (simp add: trash_row_def formatDate_def trashed_rec_def getTime_examples)
  show ?thesis
    by (intro conjI) (rule d age l1 l2 l3 l4 row)+
qed

section \<open>Properties of the save endpoint\<close>

lemma handleApiError_fails:
  "400 \<le> status (handleApiError e c) \<and> (\<exists>m. body (handleApiError e c) = ErrorBody m)"
  by (simp add: handleApiError_def)

text \<open>
  C1, as the code has it. The owner's request passed the checks, the transcript row
  was inserted under a fresh id, and the insert of the content fails with \<open>e\<close>. Then
  the endpoint answers with the error response for \<open>e\<close> (status 401, 403 or 500,
  never the success body), no content row was added, and a delete of the new id was
  sent after the two inserts. The result of that delete is not looked at: when the
  store carries it out, the transcript table is what it was before the request; when
  the delete fails too, the new row stays.
\<close>

theorem content_failure_is_compensated:
  assumes "rq_transcript rq = Some txt" and "txt \<noteq> []"
    and "rq_userId rq = Some u" and "u \<noteq> []"
    and "getUser env = Inr (Some u)"
    and "fault_insert_transcript env = None"
    and "new_transcript_id env \<notin> r_id ` set (transcripts (db s))"
    and "fault_insert_content env = Some e"
  shows "fst (POST (Json rq) env s) = handleApiError e ''save transcript content''
       \<and> 400 \<le> status (fst (POST (Json rq) env s))
       \<and> (\<exists>m. body (fst (POST (Json rq) env s)) = ErrorBody m)
       \<and> calls (snd (POST (Json rq) env s))
           = calls s @ [GetUser, InsertTranscript, InsertContent (new_transcript_id env),
                        DeleteTranscript (new_transcript_id env)]
       \<and> set (transcript_contents (db (snd (POST (Json rq) env s))))
           \<subseteq> set (transcript_contents (db s))
       \<and> (fault_delete env = None
            \<longrightarrow> transcripts (db (snd (POST (Json rq) env s))) = transcripts (db s))
       \<and> (fault_delete env \<noteq> None
            \<longrightarrow> r_id ` set (transcripts (db (snd (POST (Json rq) env s))))
                = insert (new_transcript_id env) (r_id ` set (transcripts (db s))))"
proof -
  let ?row = "\<lparr>r_id = new_transcript_id env, r_user_id = u,
      r_title = opt_or (rq_title rq) ''New Transcript'',
      r_language = opt_or (rq_language rq) ''en-US'', r_is_deleted = False,
      r_created_at = db_now env, r_updated_at = db_now env\<rparr>"
  let ?d2 = "(db s)\<lparr>transcripts := transcripts (db s) @ [?row]\<rparr>"
  let ?del = "delete_transcripts (Some u) (fault_delete env)
      (\<lambda>r. r_id r = new_transcript_id env) ?d2"
  have t: "truthy (rq_transcript rq)" "truthy (rq_userId rq)"
    using assms(1-4) by (simp_all add: truthy_def)
  have ins: "insert_transcript (Some u) None ?row (db s) = (Inr (new_transcript_id env), ?d2)"
    using assms(7) by (simp add: insert_transcript_def owns_def)
  have post: "POST (Json rq) env s =
      (handleApiError e ''save transcript content'',
       s\<lparr>db := snd ?del,
         calls := calls s @ [GetUser, InsertTranscript, InsertContent (new_transcript_id env),
                             DeleteTranscript (new_transcript_id env)]\<rparr>)"
    using t assms(3,5,6,8) ins by (simp add: POST_def insert_content_def)
  have ok: "fault_delete env = None \<Longrightarrow> transcripts (snd ?del) = transcripts (db s)"
  proof -
    assume nf: "fault_delete env = None"
    have "\<forall>r \<in> set (transcripts (db s)). r_id r \<noteq> new_transcript_id env"
      using assms(7) by (metis imageI)
    then show ?thesis
      using nf by (simp add: delete_transcripts_def owns_def filter_id_conv)
  qed
  have c_ok: "set (transcript_contents (snd ?del)) \<subseteq> set (transcript_contents (db s))"
    by (cases "fault_delete env") (auto simp: delete_transcripts_def)
  have bad: "fault_delete env \<noteq> None \<Longrightarrow>
      r_id ` set (transcripts (snd ?del)) = insert (new_transcript_id env) (r_id ` set (transcripts (db s)))"
    by (cases "fault_delete env") (auto simp: delete_transcripts_def)
  show ?thesis
    unfolding post using ok c_ok bad handleApiError_fails [of e "''save transcript content''"]
    by simp
qed

theorem content_failure_is_compensated_witness:
  "fst (POST (Json rq_hello) env_content_fails server0)
     = \<lparr>status = 500, body = ErrorBody ''Failed to save transcript content: connection failure''\<rparr>
   \<and> calls (snd (POST (Json rq_hello) env_content_fails server0))
       = [GetUser, InsertTranscript, InsertContent ''t1'', DeleteTranscript ''t1'']
   \<and> transcripts (db (snd (POST (Json rq_hello) env_content_fails server0))) = []"
proof -
  have h: "rq_transcript rq_hello = Some ''hello world''" "''hello world'' \<noteq> []"
    "rq_userId rq_hello = Some ''u1''" "''u1'' \<noteq> []"
    "getUser env_content_fails = Inr (Some ''u1'')"
    "fault_insert_transcript env_content_fails = None"
    "new_transcript_id env_content_fails \<notin> r_id ` set (transcripts (db server0))"
    "fault_insert_content env_content_fails = Some server_error"
    by (simp_all add: rq_hello_def env_content_fails_def server0_def)
  have e: "handleApiError server_error ''save transcript content''
      = \<lparr>status = 500, body = ErrorBody ''Failed to save transcript content: connection failure''\<rparr>"
    by (simp add: handleApiError_def server_error_def opt_or_def)
  have f: "fault_delete env_content_fails = None" "calls server0 = []"
    "transcripts (db server0) = []" "new_transcript_id env_content_fails = ''t1''"
    by (simp_all add: env_content_fails_def server0_def)
  show ?thesis
    using content_failure_is_compensated [OF h] unfolding e f by simp
qed

text \<open>
  The claim C1 as written fails when the compensating delete fails as well: the
  caller gets status 500, and the transcript row created by the request remains,
  without content.
\<close>

theorem orphan_transcript_counterexample:
  "status (fst (POST (Json rq_hello) env_orphan server0)) = 500
   \<and> transcripts (db server0) = []
   \<and> transcripts (db (snd (POST (Json rq_hello) env_orphan server0))) = [row_hello]
   \<and> transcript_contents (db (snd (POST (Json rq_hello) env_orphan server0))) = []"
  by (simp add: POST_def insert_transcript_def insert_content_def delete_transcripts_def
      handleApiError_def owns_def truthy_def opt_or_def rq_hello_def env_orphan_def
      env_content_fails_def server0_def server_error_def row_hello_def)

section \<open>Properties of the save loop\<close>

lemma opt_or_Some: "opt_or (Some m) d = or_else m d"
  by (simp add: opt_or_def or_else_def)

lemma failed_attempt:
  assumes "remote_failure fr" and "uid \<noteq> []"
  shows "saveTranscriptToServer ft lang (Some uid) (Some title) fr at_ms at_iso w
       = (\<lparr>success = False, message = Some (thrown_message fr), transcriptId = None\<rparr>,
          w\<lparr>events := events w @ [Fetch (sent_request ft title uid lang)]\<rparr>)"
  using assms
  by (cases fr)
    (auto simp: saveTranscriptToServer_def remote_failure_def thrown_message_def truthy_def
      sent_request_def)

lemma save_loop_transient:
  assumes "retries st \<le> maxRetries" and "\<not> savedSuccessfully st"
    and "transient_failure (fetch env (retries st))" and "uid \<noteq> []"
  shows "save_loop env ft uid title st =
     save_loop env ft uid title
       (st\<lparr>lastError := Some (failure_text (fetch env (retries st))),
           retries := retries st + 1,
           world := (world st)\<lparr>events := events (world st) @
              [Fetch (sent_request ft title uid (selectedLanguage (component st)))] @
              (if retries st + 1 \<le> maxRetries then [Wait 1000] else [])\<rparr>\<rparr>)"
proof -
  from assms(3) have rf: "remote_failure (fetch env (retries st))"
    and na: "\<not> is_auth_message (failure_text (fetch env (retries st)))"
    by (simp_all add: transient_failure_def)
  note fa = failed_attempt [OF rf assms(4), of ft "selectedLanguage (component st)" title
      "clock_ms env" "clock_iso env" "world st"]
  show ?thesis
    by (subst save_loop.simps)
      (use assms(1,2) na in \<open>simp add: Let_def fa opt_or_Some failure_text_def [symmetric]\<close>)
qed

lemma save_loop_auth:
  assumes "retries st \<le> maxRetries" and "\<not> savedSuccessfully st"
    and "auth_failure (fetch env (retries st))" and "uid \<noteq> []"
  shows "save_loop env ft uid title st =
       st\<lparr>lastError := Some (failure_text (fetch env (retries st))),
          component := (component st)\<lparr>authError := True\<rparr>,
          world := (world st)\<lparr>events := events (world st) @
              [Fetch (sent_request ft title uid (selectedLanguage (component st)))]\<rparr>\<rparr>"
proof -
  from assms(3) have rf: "remote_failure (fetch env (retries st))"
    and na: "is_auth_message (failure_text (fetch env (retries st)))"
    by (simp_all add: auth_failure_def)
  note fa = failed_attempt [OF rf assms(4), of ft "selectedLanguage (component st)" title
      "clock_ms env" "clock_iso env" "world st"]
  show ?thesis
    by (subst save_loop.simps)
      (use assms(1,2) na in \<open>simp add: Let_def fa opt_or_Some failure_text_def [symmetric]\<close>)
qed

lemma save_loop_exit: "maxRetries < retries st \<Longrightarrow> save_loop env ft uid title st = st"
  by (subst save_loop.simps) simp

text \<open>
  \<open>k\<close> transient failures followed by an authentication failure: \<open>k + 1\<close> requests,
  a wait after each of the first \<open>k\<close>, and the loop is left.
\<close>

lemma loop_transient_then_auth:
  assumes "retries st + k \<le> maxRetries" and "\<not> savedSuccessfully st"
    and "\<forall>n. retries st \<le> n \<and> n < retries st + k \<longrightarrow> transient_failure (fetch env n)"
    and "auth_failure (fetch env (retries st + k))" and "uid \<noteq> []"
  shows "save_loop env ft uid title st =
       st\<lparr>lastError := Some (failure_text (fetch env (retries st + k))),
          retries := retries st + k,
          component := (component st)\<lparr>authError := True\<rparr>,
          world := (world st)\<lparr>events := events (world st) @
              concat (replicate k
                [Fetch (sent_request ft title uid (selectedLanguage (component st))), Wait 1000]) @
              [Fetch (sent_request ft title uid (selectedLanguage (component st)))]\<rparr>\<rparr>"
  using assms
proof (induction k arbitrary: st)
  case 0
  then show ?case
    using save_loop_auth [of st env uid ft title] by simp
next
  case (Suc k)
  let ?st1 = "st\<lparr>lastError := Some (failure_text (fetch env (retries st))),
           retries := retries st + 1,
           world := (world st)\<lparr>events := events (world st) @
              [Fetch (sent_request ft title uid (selectedLanguage (component st)))] @
              (if retries st + 1 \<le> maxRetries then [Wait 1000] else [])\<rparr>\<rparr>"
  from Suc.prems have r: "retries st \<le> maxRetries" "retries st + 1 \<le> maxRetries"
    and t: "transient_failure (fetch env (retries st))"
    by simp_all
  have step: "save_loop env ft uid title st = save_loop env ft uid title ?st1"
    using save_loop_transient [OF r(1) Suc.prems(2) t Suc.prems(5)] .
  have ih: "save_loop env ft uid title ?st1 =
       ?st1\<lparr>lastError := Some (failure_text (fetch env (retries ?st1 + k))),
          retries := retries ?st1 + k,
          component := (component ?st1)\<lparr>authError := True\<rparr>,
          world := (world ?st1)\<lparr>events := events (world ?st1) @
              concat (replicate k
                [Fetch (sent_request ft title uid (selectedLanguage (component ?st1))), Wait 1000]) @
              [Fetch (sent_request ft title uid (selectedLanguage (component ?st1)))]\<rparr>\<rparr>"
    using Suc.prems by (intro Suc.IH) simp_all
  show ?case
    unfolding step ih using r by simp
qed

text \<open>Three transient failures: three requests, two waits, and the loop ends.\<close>

lemma loop_all_transient:
  assumes "\<forall>n \<le> maxRetries. transient_failure (fetch env n)" and "uid \<noteq> []"
  shows "save_loop env ft uid title
           \<lparr>retries = 0, savedSuccessfully = False, lastError = None, component = c, world = w\<rparr>
       = \<lparr>retries = 3, savedSuccessfully = False,
          lastError = Some (failure_text (fetch env maxRetries)), component = c,
          world = w\<lparr>events := events w @
            [Fetch (sent_request ft title uid (selectedLanguage c)), Wait 1000,
             Fetch (sent_request ft title uid (selectedLanguage c)), Wait 1000,
             Fetch (sent_request ft title uid (selectedLanguage c))]\<rparr>\<rparr>"
proof -
  have t: "transient_failure (fetch env 0)" "transient_failure (fetch env (Suc 0))"
    "transient_failure (fetch env 2)"
    using assms(1) by (simp_all add: maxRetries_def numeral_2_eq_2)
  let ?F = "Fetch (sent_request ft title uid (selectedLanguage c))"
  let ?st0 = "\<lparr>retries = 0, savedSuccessfully = False, lastError = None, component = c,
      world = w\<rparr>"
  let ?st1 = "\<lparr>retries = 1, savedSuccessfully = False,
      lastError = Some (failure_text (fetch env 0)), component = c,
      world = w\<lparr>events := events w @ [?F, Wait 1000]\<rparr>\<rparr>"
  let ?st2 = "\<lparr>retries = 2, savedSuccessfully = False,
      lastError = Some (failure_text (fetch env (Suc 0))), component = c,
      world = w\<lparr>events := events w @ [?F, Wait 1000, ?F, Wait 1000]\<rparr>\<rparr>"
  let ?st3 = "\<lparr>retries = 3, savedSuccessfully = False,
      lastError = Some (failure_text (fetch env 2)), component = c,
      world = w\<lparr>events := events w @ [?F, Wait 1000, ?F, Wait 1000, ?F]\<rparr>\<rparr>"
  have "save_loop env ft uid title ?st0 = save_loop env ft uid title ?st1"
    using save_loop_transient [of ?st0 env uid ft title] t(1) assms(2)
    by (simp add: maxRetries_def numeral_2_eq_2 numeral_3_eq_3)
  also have "\<dots> = save_loop env ft uid title ?st2"
    using save_loop_transient [of ?st1 env uid ft title] t(2) assms(2)
    by (simp add: maxRetries_def numeral_2_eq_2 numeral_3_eq_3)
  also have "\<dots> = save_loop env ft uid title ?st3"
    using save_loop_transient [of ?st2 env uid ft title] t(3) assms(2)
    by (simp add: maxRetries_def numeral_2_eq_2 numeral_3_eq_3)
  also have "\<dots> = ?st3"
    by (rule save_loop_exit) (simp add: maxRetries_def)
  finally show ?thesis
    by (simp add: maxRetries_def numeral_2_eq_2 numeral_3_eq_3)
qed

lemma failure_text_again: "opt_or (Some (failure_text fr)) ''Unknown error'' = failure_text fr"
  by (simp add: opt_or_def failure_text_def or_else_def)

text \<open>
  The save of a signed-in user, of a text that is not blank, in a render whose
  \<open>authError\<close> is \<open>False\<close>. When every attempt fails with a transient error, the save
  sends the request three times (the first attempt and \<open>maxRetries = 2\<close> retries) with
  a wait of 1000 ms between consecutive attempts and none after the last, then writes
  the text to the local store and shows the error toast that says
  \<open>Saved locally instead\<close>. When the attempt number \<open>k\<close> fails with one of the loop's
  authentication messages after \<open>k\<close> transient failures, no further request follows.
\<close>

lemma fresh_render_retries_then_local:
  assumes "finalText = or_else textToSave (or_else (currentTranscript c) (transcript c))"
    and "trim finalText \<noteq> []"
    and "userDetails_id c = Some uid" and "uid \<noteq> []"
    and "\<not> authError c"
    and "rq = Fetch (sent_request finalText (make_title finalText) uid (selectedLanguage c))"
  shows "((\<forall>n \<le> maxRetries. transient_failure (fetch env n)) \<longrightarrow>
            events (snd (saveToServer textToSave env c w))
              = events w @ [rq, Wait 1000, rq, Wait 1000, rq,
                  Toast ToastError ''Failed to save to server''
                    (''Saved locally instead. Error: '' @ failure_text (fetch env maxRetries))]
            \<and> local_store (snd (saveToServer textToSave env c w))
              = storeTranscriptLocally finalText (selectedLanguage c) (Some uid)
                  (clock_ms env) (clock_iso env) (local_store w)
            \<and> \<not> authError (fst (saveToServer textToSave env c w)))
       \<and> (k \<le> maxRetries \<and> (\<forall>n < k. transient_failure (fetch env n))
            \<and> auth_failure (fetch env k) \<longrightarrow>
            events (snd (saveToServer textToSave env c w))
              = events w @ concat (replicate k [rq, Wait 1000]) @ [rq,
                  Toast ToastError ''Failed to save to server''
                    (''Saved locally instead. Error: '' @ failure_text (fetch env k))]
            \<and> authError (fst (saveToServer textToSave env c w)))"
proof -
  let ?st0 = "\<lparr>retries = 0, savedSuccessfully = False, lastError = None,
      component = c\<lparr>serverSaving := True\<rparr>, world = w\<rparr>"
  have tr: "truthy (userDetails_id c)" and u: "opt_or (userDetails_id c) [] = uid"
    using assms(3,4) by (simp_all add: truthy_def opt_or_def)
  have unfold: "saveToServer textToSave env c w =
      (let st = save_loop env finalText uid (make_title finalText) ?st0;
           l = storeLocally finalText env (component st) (world st) in
       if \<not> savedSuccessfully st then
         ((fst l)\<lparr>serverSaving := False\<rparr>,
          (snd l)\<lparr>events := events (snd l) @
             [Toast ToastError ''Failed to save to server''
                (''Saved locally instead. Error: '' @ opt_or (lastError st) ''Unknown error'')]\<rparr>)
       else ((component st)\<lparr>serverSaving := False\<rparr>, world st))"
    using assms(1,2,5) tr u by (simp add: saveToServer_def Let_def)
  have a: "(\<forall>n \<le> maxRetries. transient_failure (fetch env n)) \<longrightarrow>
            events (snd (saveToServer textToSave env c w))
              = events w @ [rq, Wait 1000, rq, Wait 1000, rq,
                  Toast ToastError ''Failed to save to server''
                    (''Saved locally instead. Error: '' @ failure_text (fetch env maxRetries))]
            \<and> local_store (snd (saveToServer textToSave env c w))
              = storeTranscriptLocally finalText (selectedLanguage c) (Some uid)
                  (clock_ms env) (clock_iso env) (local_store w)
            \<and> \<not> authError (fst (saveToServer textToSave env c w))"
  proof
    assume t: "\<forall>n \<le> maxRetries. transient_failure (fetch env n)"
    show "events (snd (saveToServer textToSave env c w))
              = events w @ [rq, Wait 1000, rq, Wait 1000, rq,
                  Toast ToastError ''Failed to save to server''
                    (''Saved locally instead. Error: '' @ failure_text (fetch env maxRetries))]
            \<and> local_store (snd (saveToServer textToSave env c w))
              = storeTranscriptLocally finalText (selectedLanguage c) (Some uid)
                  (clock_ms env) (clock_iso env) (local_store w)
            \<and> \<not> authError (fst (saveToServer textToSave env c w))"
      unfolding unfold loop_all_transient [OF t assms(4)]
      using assms(2,3,5,6) by (simp add: Let_def storeLocally_def failure_text_again)
  qed
  have b: "k \<le> maxRetries \<and> (\<forall>n < k. transient_failure (fetch env n))
            \<and> auth_failure (fetch env k) \<longrightarrow>
            events (snd (saveToServer textToSave env c w))
              = events w @ concat (replicate k [rq, Wait 1000]) @ [rq,
                  Toast ToastError ''Failed to save to server''
                    (''Saved locally instead. Error: '' @ failure_text (fetch env k))]
            \<and> authError (fst (saveToServer textToSave env c w))"
  proof
    assume h: "k \<le> maxRetries \<and> (\<forall>n < k. transient_failure (fetch env n))
        \<and> auth_failure (fetch env k)"
    have l: "save_loop env finalText uid (make_title finalText) ?st0 =
       ?st0\<lparr>lastError := Some (failure_text (fetch env (retries ?st0 + k))),
          retries := retries ?st0 + k,
          component := (component ?st0)\<lparr>authError := True\<rparr>,
          world := (world ?st0)\<lparr>events := events (world ?st0) @
              concat (replicate k
                [Fetch (sent_request finalText (make_title finalText) uid
                   (selectedLanguage (component ?st0))), Wait 1000]) @
              [Fetch (sent_request finalText (make_title finalText) uid
                   (selectedLanguage (component ?st0)))]\<rparr>\<rparr>"
      using h assms(4) by (intro loop_transient_then_auth) simp_all
    show "events (snd (saveToServer textToSave env c w))
              = events w @ concat (replicate k [rq, Wait 1000]) @ [rq,
                  Toast ToastError ''Failed to save to server''
                    (''Saved locally instead. Error: '' @ failure_text (fetch env k))]
            \<and> authError (fst (saveToServer textToSave env c w))"
      unfolding unfold l
      using assms(2,3,5,6) by (simp add: Let_def storeLocally_def failure_text_again)
  qed
  from a b show ?thesis by blast
qed

lemma fresh_render_retries_then_local_example:
  "events (snd (saveToServer ''hello world'' env_down recorder0 client0))
     = [fetch_hello, Wait 1000, fetch_hello, Wait 1000, fetch_hello,
        Toast ToastError ''Failed to save to server''
          ''Saved locally instead. Error: Failed to fetch'']
   \<and> savedTranscripts (local_store (snd (saveToServer ''hello world'' env_down recorder0 client0)))
     = Some [\<lparr>tid = ''1704067200000'', ttext = ''hello world'',
              timestamp = ''2024-01-01T00:00:00.000Z'', deletedAt = None,
              language = Some ''en-US'', userId = Some ''u1''\<rparr>]
   \<and> \<not> authError (fst (saveToServer ''hello world'' env_down recorder0 client0))
   \<and> events (snd (saveToServer ''hello world'' env_expired recorder0 client0))
     = [fetch_hello,
        Toast ToastError ''Failed to save to server''
          ''Saved locally instead. Error: You must be logged in to save transcripts'']
   \<and> authError (fst (saveToServer ''hello world'' env_expired recorder0 client0))"
proof -
  have ft: "''hello world''
      = or_else ''hello world'' (or_else (currentTranscript recorder0) (transcript recorder0))"
    by (simp add: or_else_def)
  have nb: "trim ''hello world'' \<noteq> []"
    by (simp add: trim_def is_ws_def)
  have u: "userDetails_id recorder0 = Some ''u1''" "''u1'' \<noteq> []"
    and na: "\<not> authError recorder0"
    by (simp_all add: recorder0_def)
  have rq: "fetch_hello = Fetch (sent_request ''hello world'' (make_title ''hello world'') ''u1''
      (selectedLanguage recorder0))"
    by (simp add: fetch_hello_def sent_request_def make_title_def trim_def is_ws_def
        recorder0_def)
  have txt_down: "failure_text (Rejected ''Failed to fetch'') = ''Failed to fetch''"
    by (simp add: failure_text_def thrown_message_def or_else_def)
  have txt_exp: "failure_text (fetch env_expired 0) = ''You must be logged in to save transcripts''"
    by (simp add: env_expired_def failure_text_def thrown_message_def or_else_def opt_or_def)
  have down: "\<forall>n \<le> maxRetries. transient_failure (fetch env_down n)"
    by (simp add: env_down_def transient_failure_def remote_failure_def txt_down
        is_auth_message_def)
  have expired: "0 \<le> maxRetries \<and> (\<forall>n < (0::nat). transient_failure (fetch env_expired n))
      \<and> auth_failure (fetch env_expired 0)"
    unfolding auth_failure_def txt_exp
    by (simp add: env_expired_def remote_failure_def is_auth_message_def)
  have store: "storeTranscriptLocally ''hello world'' (selectedLanguage recorder0) (Some ''u1'')
      (clock_ms env_down) (clock_iso env_down) (local_store client0)
      = \<lparr>savedTranscripts = Some [\<lparr>tid = ''1704067200000'', ttext = ''hello world'',
              timestamp = ''2024-01-01T00:00:00.000Z'', deletedAt = None,
              language = Some ''en-US'', userId = Some ''u1''\<rparr>], setItem_calls = 1\<rparr>"
    by (simp add: storeTranscriptLocally_def setItem_def parsed_def recorder0_def env_down_def
        client0_def)
  have ev: "events client0 = []" "fetch env_down maxRetries = Rejected ''Failed to fetch''"
    by (simp_all add: client0_def env_down_def)
  note a = fresh_render_retries_then_local [OF ft nb u na rq, of env_down client0 0]
  note b = fresh_render_retries_then_local [OF ft nb u na rq, of env_expired client0 0]
  from a down have "events (snd (saveToServer ''hello world'' env_down recorder0 client0))
     = events client0 @ [fetch_hello, Wait 1000, fetch_hello, Wait 1000, fetch_hello,
        Toast ToastError ''Failed to save to server''
          (''Saved locally instead. Error: '' @ failure_text (fetch env_down maxRetries))]
   \<and> local_store (snd (saveToServer ''hello world'' env_down recorder0 client0))
     = storeTranscriptLocally ''hello world'' (selectedLanguage recorder0) (Some ''u1'')
      (clock_ms env_down) (clock_iso env_down) (local_store client0)
   \<and> \<not> authError (fst (saveToServer ''hello world'' env_down recorder0 client0))"
    by blast
  moreover from b expired have
    "events (snd (saveToServer ''hello world'' env_expired recorder0 client0))
     = events client0 @ concat (replicate 0 [fetch_hello, Wait 1000]) @ [fetch_hello,
        Toast ToastError ''Failed to save to server''
          (''Saved locally instead. Error: '' @ failure_text (fetch env_expired 0))]
   \<and> authError (fst (saveToServer ''hello world'' env_expired recorder0 client0))"
    by blast
  ultimately show ?thesis
    unfolding store ev txt_down txt_exp by simp
qed

text \<open>
  The same save in a render whose \<open>authError\<close> is \<open>True\<close>: the three requests and the
  two waits, and nothing after them.
\<close>

lemma stale_render_skips_fallback:
  assumes "finalText = or_else textToSave (or_else (currentTranscript c) (transcript c))"
    and "trim finalText \<noteq> []"
    and "userDetails_id c = Some uid" and "uid \<noteq> []"
    and "authError c"
    and "\<forall>n \<le> maxRetries. transient_failure (fetch env n)"
    and "rq = Fetch (sent_request finalText (make_title finalText) uid (selectedLanguage c))"
  shows "saveToServer textToSave env c w
       = (c\<lparr>serverSaving := False\<rparr>,
          w\<lparr>events := events w @ [rq, Wait 1000, rq, Wait 1000, rq]\<rparr>)"
proof -
  have tr: "truthy (userDetails_id c)" and u: "opt_or (userDetails_id c) [] = uid"
    using assms(3,4) by (simp_all add: truthy_def opt_or_def)
  show ?thesis
    using assms(1,2,5,7) tr u
    by (simp add: saveToServer_def Let_def loop_all_transient [OF assms(6) assms(4)])
qed

text \<open>
  C2. The code breaks the claim in two places. First, the test after the loop reads
  \<open>authError\<close> of the render that created the handler, not whether this save met an
  authentication failure. In a render whose \<open>authError\<close> is \<open>True\<close>, Ctrl+Enter on the
  text \<open>''hello world''\<close> with the network down sends the three requests with their two
  waits and then neither writes the local store nor shows a toast, and
  \<open>handleManualSave\<close> clears the text. Second, the messages the loop takes for
  authentication failures do not contain the endpoint's own answer to an expired
  token, \<open>Invalid or expired authentication token\<close> with status 401: that failure is
  retried twice like a transient one.
\<close>

theorem stale_authError_loses_transcript:
  "authError recorder_stale \<and> isEditing recorder_stale
   \<and> editedTranscript recorder_stale = ''hello world''
   \<and> transient_failure (fetch env_down 0) \<and> transient_failure (fetch env_down 1)
   \<and> transient_failure (fetch env_down 2)
   \<and> events (snd (editKeyDown ctrl_enter env_down recorder_stale client0))
       = [fetch_hello, Wait 1000, fetch_hello, Wait 1000, fetch_hello]
   \<and> local_store (snd (editKeyDown ctrl_enter env_down recorder_stale client0))
       = local_store client0
   \<and> editedTranscript (fst (editKeyDown ctrl_enter env_down recorder_stale client0)) = []
   \<and> transcript (fst (editKeyDown ctrl_enter env_down recorder_stale client0)) = []
   \<and> currentTranscript (fst (editKeyDown ctrl_enter env_down recorder_stale client0)) = []
   \<and> fst (POST (Json rq_hello) env_bad_token server0)
       = \<lparr>status = 401, body = ErrorBody ''Invalid or expired authentication token''\<rparr>
   \<and> \<not> is_auth_message ''Invalid or expired authentication token''
   \<and> events (snd (saveToServer ''hello world'' env_jwt recorder0 client0))
       = [fetch_hello, Wait 1000, fetch_hello, Wait 1000, fetch_hello,
          Toast ToastError ''Failed to save to server''
            ''Saved locally instead. Error: Invalid or expired authentication token'']"
proof -
  have st: "authError recorder_stale" "isEditing recorder_stale"
    "editedTranscript recorder_stale = ''hello world''"
    by (simp_all add: recorder_stale_def recorder0_def)
  have txt_down: "failure_text (Rejected ''Failed to fetch'') = ''Failed to fetch''"
    by (simp add: failure_text_def thrown_message_def or_else_def)
  have t: "transient_failure (fetch env_down n)" for n
    by (simp add: env_down_def transient_failure_def remote_failure_def txt_down
        is_auth_message_def)
  have down: "\<forall>n \<le> maxRetries. transient_failure (fetch env_down n)"
    using t by simp
  have nb: "trim ''hello world'' \<noteq> []"
    by (simp add: trim_def is_ws_def)
  have ft: "''hello world'' = or_else ''hello world''
      (or_else (currentTranscript recorder_stale) (transcript recorder_stale))"
    and ft0: "''hello world'' = or_else ''hello world''
      (or_else (currentTranscript recorder0) (transcript recorder0))"
    by (simp_all add: or_else_def)
  have u: "userDetails_id recorder_stale = Some ''u1''" "''u1'' \<noteq> []"
    and u0: "userDetails_id recorder0 = Some ''u1''"
    and na0: "\<not> authError recorder0"
    by (simp_all add: recorder_stale_def recorder0_def)
  have rq: "fetch_hello = Fetch (sent_request ''hello world'' (make_title ''hello world'') ''u1''
      (selectedLanguage recorder_stale))"
    and rq0: "fetch_hello = Fetch (sent_request ''hello world'' (make_title ''hello world'') ''u1''
      (selectedLanguage recorder0))"
    by (simp_all add: fetch_hello_def sent_request_def make_title_def trim_def is_ws_def
        recorder_stale_def recorder0_def)
  have save: "saveToServer ''hello world'' env_down recorder_stale client0
      = (recorder_stale\<lparr>serverSaving := False\<rparr>,
         client0\<lparr>events := events client0 @
           [fetch_hello, Wait 1000, fetch_hello, Wait 1000, fetch_hello]\<rparr>)"
    by (rule stale_render_skips_fallback [OF ft nb u st(1) down rq])
  have key: "editKeyDown ctrl_enter env_down recorder_stale client0
      = handleManualSave env_down recorder_stale client0"
    using st nb by (simp add: editKeyDown_def ctrl_enter_def)
  have manual: "handleManualSave env_down recorder_stale client0
      = (recorder_stale\<lparr>serverSaving := False, isEditing := False, editedTranscript := [],
           transcript := [], currentTranscript := []\<rparr>,
         client0\<lparr>events := events client0 @
           [fetch_hello, Wait 1000, fetch_hello, Wait 1000, fetch_hello]\<rparr>)"
    using st(3) nb by (simp add: handleManualSave_def Let_def save)
  have ev: "events client0 = []"
    by (simp add: client0_def)
  have l1: "events (snd (editKeyDown ctrl_enter env_down recorder_stale client0))
       = [fetch_hello, Wait 1000, fetch_hello, Wait 1000, fetch_hello]"
    and l2: "local_store (snd (editKeyDown ctrl_enter env_down recorder_stale client0))
       = local_store client0"
    and l3: "editedTranscript (fst (editKeyDown ctrl_enter env_down recorder_stale client0)) = []"
    and l4: "transcript (fst (editKeyDown ctrl_enter env_down recorder_stale client0)) = []"
    and l5: "currentTranscript (fst (editKeyDown ctrl_enter env_down recorder_stale client0)) = []"
    unfolding key manual by (simp_all add: ev)
  have post: "fst (POST (Json rq_hello) env_bad_token server0)
       = \<lparr>status = 401, body = ErrorBody ''Invalid or expired authentication token''\<rparr>"
    by (simp add: POST_def handleApiError_def truthy_def rq_hello_def env_bad_token_def
        env_content_fails_def)
  have no_auth: "\<not> is_auth_message ''Invalid or expired authentication token''"
    by (simp add: is_auth_message_def)
  have txt_jwt: "failure_text (fetch env_jwt n) = ''Invalid or expired authentication token''"
    for n
    by (simp add: env_jwt_def failure_text_def thrown_message_def or_else_def opt_or_def)
  have jwt: "\<forall>n \<le> maxRetries. transient_failure (fetch env_jwt n)"
    unfolding transient_failure_def txt_jwt using no_auth
    by (simp add: env_jwt_def remote_failure_def)
  have l6: "events (snd (saveToServer ''hello world'' env_jwt recorder0 client0))
       = [fetch_hello, Wait 1000, fetch_hello, Wait 1000, fetch_hello,
          Toast ToastError ''Failed to save to server''
            ''Saved locally instead. Error: Invalid or expired authentication token'']"
    using fresh_render_retries_then_local [OF ft0 nb u0 u(2) na0 rq0, of env_jwt client0 0,
        THEN conjunct1, THEN mp, OF jwt, THEN conjunct1]
    unfolding txt_jwt ev by simp
  show ?thesis
    by (intro conjI) (rule st t l1 l2 l3 l4 l5 post no_auth l6)+
qed

section \<open>Blank input\<close>




section \<open>Properties of the cache\<close>

lemma cache_hit:
  assumes "transcriptCache w i = Some e" and "t_call - ce_timestamp e \<le> CACHE_TTL"
  shows "getTranscript i uid t_call t_done f1 f2 w = (Inr (ce_data e), w)"
  using assms by (simp add: getTranscript_def isCacheExpired_def)

lemma cache_miss:
  assumes "transcriptCache w i = None
      \<or> (\<exists>e. transcriptCache w i = Some e \<and> CACHE_TTL < t_call - ce_timestamp e)"
  shows "(case transcriptCache w i of
            None \<Rightarrow> None
          | Some cached \<Rightarrow>
              if \<not> isCacheExpired t_call (ce_timestamp cached) then Some (ce_data cached)
              else None) = None"
  using assms by (auto simp: isCacheExpired_def)

text \<open>
  C7, as the code has it. \<open>getTranscript\<close> answers from the cache, with no request
  and no change of state, exactly when an entry exists whose age at the call is at
  most \<open>CACHE_TTL\<close> (five minutes; an entry of exactly that age is still served).
  Otherwise it sends the two selects. When both succeed it returns the fetched
  payload, the cache holds it under the id with the timestamp of the fetch, and the
  sweep has left no entry older than \<open>CACHE_TTL\<close>: every other entry is kept or
  dropped as \<open>clearExpiredCache\<close> decides. When a select fails it returns the error
  and the cache is as before.
\<close>

theorem getTranscript_read_through:
  "(transcriptCache w i = Some e \<and> t_call - ce_timestamp e \<le> CACHE_TTL
      \<longrightarrow> getTranscript i uid t_call t_done f1 f2 w = (Inr (ce_data e), w))
   \<and> ((transcriptCache w i = None
        \<or> (\<exists>e'. transcriptCache w i = Some e' \<and> CACHE_TTL < t_call - ce_timestamp e'))
       \<and> single f1 (select_transcripts uid (\<lambda>r. r_id r = i) (remote w)) = Inr row
       \<and> single f2 (select_contents uid (\<lambda>c. c_transcript_id c = i) (remote w)) = Inr content
      \<longrightarrow> fst (getTranscript i uid t_call t_done f1 f2 w)
            = Inr \<lparr>p_row = row, p_content = c_content content\<rparr>
        \<and> requests (snd (getTranscript i uid t_call t_done f1 f2 w))
            = requests w @ [SelectTranscript i, SelectContent i]
        \<and> remote (snd (getTranscript i uid t_call t_done f1 f2 w)) = remote w
        \<and> transcriptCache (snd (getTranscript i uid t_call t_done f1 f2 w)) i
            = Some \<lparr>ce_data = \<lparr>p_row = row, p_content = c_content content\<rparr>,
                    ce_timestamp = t_done\<rparr>
        \<and> (\<forall>k v. transcriptCache (snd (getTranscript i uid t_call t_done f1 f2 w)) k = Some v
              \<longrightarrow> t_done - ce_timestamp v \<le> CACHE_TTL)
        \<and> (\<forall>k. k \<noteq> i
              \<longrightarrow> transcriptCache (snd (getTranscript i uid t_call t_done f1 f2 w)) k
                  = clearExpiredCache t_done (transcriptCache w) k))
   \<and> ((transcriptCache w i = None
        \<or> (\<exists>e'. transcriptCache w i = Some e' \<and> CACHE_TTL < t_call - ce_timestamp e'))
       \<and> (single f1 (select_transcripts uid (\<lambda>r. r_id r = i) (remote w)) = Inl err
          \<or> single f2 (select_contents uid (\<lambda>c. c_transcript_id c = i) (remote w)) = Inl err)
      \<longrightarrow> (\<exists>m. fst (getTranscript i uid t_call t_done f1 f2 w) = Inl m)
        \<and> requests (snd (getTranscript i uid t_call t_done f1 f2 w)) \<noteq> requests w
        \<and> transcriptCache (snd (getTranscript i uid t_call t_done f1 f2 w)) = transcriptCache w)"
proof -
  have hit: "transcriptCache w i = Some e \<and> t_call - ce_timestamp e \<le> CACHE_TTL
      \<longrightarrow> getTranscript i uid t_call t_done f1 f2 w = (Inr (ce_data e), w)"
    using cache_hit by blast
  have fetched: "fst (getTranscript i uid t_call t_done f1 f2 w)
            = Inr \<lparr>p_row = row, p_content = c_content content\<rparr>
        \<and> requests (snd (getTranscript i uid t_call t_done f1 f2 w))
            = requests w @ [SelectTranscript i, SelectContent i]
        \<and> remote (snd (getTranscript i uid t_call t_done f1 f2 w)) = remote w
        \<and> transcriptCache (snd (getTranscript i uid t_call t_done f1 f2 w)) i
            = Some \<lparr>ce_data = \<lparr>p_row = row, p_content = c_content content\<rparr>,
                    ce_timestamp = t_done\<rparr>
        \<and> (\<forall>k v. transcriptCache (snd (getTranscript i uid t_call t_done f1 f2 w)) k = Some v
              \<longrightarrow> t_done - ce_timestamp v \<le> CACHE_TTL)
        \<and> (\<forall>k. k \<noteq> i
              \<longrightarrow> transcriptCache (snd (getTranscript i uid t_call t_done f1 f2 w)) k
                  = clearExpiredCache t_done (transcriptCache w) k)"
    if miss: "transcriptCache w i = None
        \<or> (\<exists>e'. transcriptCache w i = Some e' \<and> CACHE_TTL < t_call - ce_timestamp e')"
      and r1: "single f1 (select_transcripts uid (\<lambda>r. r_id r = i) (remote w)) = Inr row"
      and r2: "single f2 (select_contents uid (\<lambda>c. c_transcript_id c = i) (remote w)) = Inr content"
  proof -
    have g: "getTranscript i uid t_call t_done f1 f2 w =
        (Inr \<lparr>p_row = row, p_content = c_content content\<rparr>,
         w\<lparr>requests := requests w @ [SelectTranscript i, SelectContent i],
           transcriptCache := clearExpiredCache t_done
             ((transcriptCache w)(i \<mapsto> \<lparr>ce_data = \<lparr>p_row = row, p_content = c_content content\<rparr>,
                ce_timestamp = t_done\<rparr>))\<rparr>)"
      unfolding getTranscript_def cache_miss [OF miss] by (simp add: r1 r2 Let_def)
    have ttl: "0 \<le> CACHE_TTL" by (simp add: CACHE_TTL_def)
    show ?thesis
      unfolding g using ttl
      by (auto simp: clearExpiredCache_def isCacheExpired_def split: option.splits if_splits)
  qed
  have failed: "(\<exists>m. fst (getTranscript i uid t_call t_done f1 f2 w) = Inl m)
        \<and> requests (snd (getTranscript i uid t_call t_done f1 f2 w)) \<noteq> requests w
        \<and> transcriptCache (snd (getTranscript i uid t_call t_done f1 f2 w)) = transcriptCache w"
    if miss: "transcriptCache w i = None
        \<or> (\<exists>e'. transcriptCache w i = Some e' \<and> CACHE_TTL < t_call - ce_timestamp e')"
      and r: "single f1 (select_transcripts uid (\<lambda>r. r_id r = i) (remote w)) = Inl err
          \<or> single f2 (select_contents uid (\<lambda>c. c_transcript_id c = i) (remote w)) = Inl err"
    using r unfolding getTranscript_def cache_miss [OF miss]
    by (auto simp: Let_def split: sum.splits)
  from hit fetched failed show ?thesis by blast
qed

theorem getTranscript_read_through_witness:
  "getTranscript ''t1'' (Some ''u1'') 300000 300050 None None service0
     = (Inr payload_hello, service0)
   \<and> fst (getTranscript ''t1'' (Some ''u1'') 300001 300050 None None service0)
     = Inr payload_hello
   \<and> requests (snd (getTranscript ''t1'' (Some ''u1'') 300001 300050 None None service0))
     = [SelectTranscript ''t1'', SelectContent ''t1'']
   \<and> transcriptCache (snd (getTranscript ''t1'' (Some ''u1'') 300001 300050 None None service0))
       ''t1'' = Some \<lparr>ce_data = payload_hello, ce_timestamp = 300050\<rparr>
   \<and> transcriptCache (snd (getTranscript ''t1'' (Some ''u1'') 300001 300050 None None service0))
       ''t0'' = None
   \<and> (\<exists>m. fst (getTranscript ''t1'' None 300001 300050 None None service0) = Inl m)"
proof -
  let ?e = "\<lparr>ce_data = payload_hello, ce_timestamp = 0\<rparr>"
  have c: "transcriptCache service0 ''t1'' = Some ?e"
    by (simp add: service0_def)
  have fresh: "transcriptCache service0 ''t1'' = Some ?e \<and> 300000 - ce_timestamp ?e \<le> CACHE_TTL"
    using c by (simp add: CACHE_TTL_def)
  have stale: "transcriptCache service0 ''t1'' = None
      \<or> (\<exists>e'. transcriptCache service0 ''t1'' = Some e' \<and> CACHE_TTL < 300001 - ce_timestamp e')"
    using c by (simp add: CACHE_TTL_def)
  have r1: "single None (select_transcripts (Some ''u1'') (\<lambda>r. r_id r = ''t1'') (remote service0))
      = Inr row_hello"
    by (simp add: single_def select_transcripts_def owns_def service0_def db_hello_def
        row_hello_def row_other_def)
  have r2: "single None (select_contents (Some ''u1'') (\<lambda>c. c_transcript_id c = ''t1'')
      (remote service0)) = Inr content_hello"
    by (simp add: single_def select_contents_def owns_transcript_def owns_def service0_def
        db_hello_def row_hello_def row_other_def content_hello_def)
  have r3: "single None (select_transcripts None (\<lambda>r. r_id r = ''t1'') (remote service0))
      = Inl not_single"
    by (simp add: single_def select_transcripts_def owns_def service0_def db_hello_def)
  have p: "\<lparr>p_row = row_hello, p_content = c_content content_hello\<rparr> = payload_hello"
    by (simp add: payload_hello_def content_hello_def)
  have sweep: "clearExpiredCache 300050 (transcriptCache service0) ''t0'' = None"
    by (simp add: clearExpiredCache_def isCacheExpired_def CACHE_TTL_def service0_def)
  have rq: "requests service0 = []"
    by (simp add: service0_def)
  have d: "''t0'' \<noteq> ''t1''"
    by simp
  note a = getTranscript_read_through [of service0 "''t1''" ?e 300000 "Some ''u1''" 300050
      None None row_hello content_hello not_single]
  note b = getTranscript_read_through [of service0 "''t1''" ?e 300001 "Some ''u1''" 300050
      None None row_hello content_hello not_single]
  note f = getTranscript_read_through [of service0 "''t1''" ?e 300001 None 300050
      None None row_hello content_hello not_single]
  note hit = a [THEN conjunct1, THEN mp, OF fresh]
  note fetched = b [THEN conjunct2, THEN conjunct1, THEN mp,
      OF conjI [OF stale conjI [OF r1 r2]]]
  note failed = f [THEN conjunct2, THEN conjunct2, THEN mp,
      OF conjI [OF stale disjI1 [OF r3]]]
  have l0: "getTranscript ''t1'' (Some ''u1'') 300000 300050 None None service0
     = (Inr payload_hello, service0)"
    using hit by simp
  have l1: "fst (getTranscript ''t1'' (Some ''u1'') 300001 300050 None None service0)
      = Inr payload_hello"
    using fetched [THEN conjunct1] unfolding p .
  have l2: "requests (snd (getTranscript ''t1'' (Some ''u1'') 300001 300050 None None service0))
      = [SelectTranscript ''t1'', SelectContent ''t1'']"
    using fetched [THEN conjunct2, THEN conjunct1] unfolding rq by simp
  have l3: "transcriptCache
      (snd (getTranscript ''t1'' (Some ''u1'') 300001 300050 None None service0)) ''t1''
      = Some \<lparr>ce_data = payload_hello, ce_timestamp = 300050\<rparr>"
    using fetched [THEN conjunct2, THEN conjunct2, THEN conjunct2, THEN conjunct1]
    unfolding p .
  have l4: "transcriptCache
      (snd (getTranscript ''t1'' (Some ''u1'') 300001 300050 None None service0)) ''t0'' = None"
    using fetched [THEN conjunct2, THEN conjunct2, THEN conjunct2, THEN conjunct2,
        THEN conjunct2, THEN spec, of "''t0''", THEN mp, OF d]
    unfolding sweep .
  have l5: "\<exists>m. fst (getTranscript ''t1'' None 300001 300050 None None service0) = Inl m"
    using failed [THEN conjunct1] .
  show ?thesis
    by (intro conjI) (rule l0 l1 l2 l3 l4 l5)+
qed

text \<open>
  The claim C7 as written fails at the boundary. The entry of \<open>''t1''\<close> was fetched at
  time \<open>0\<close>; at time \<open>300000\<close> its age is five minutes, not less, and \<open>getTranscript\<close>
  still returns it without sending a request.
\<close>

theorem five_minute_old_entry_served_counterexample:
  "map_option ce_timestamp (transcriptCache service0 ''t1'') = Some 0
   \<and> \<not> (300000 - 0 < CACHE_TTL)
   \<and> fst (getTranscript ''t1'' (Some ''u1'') 300000 300050 None None service0) = Inr payload_hello
   \<and> requests (snd (getTranscript ''t1'' (Some ''u1'') 300000 300050 None None service0))
       = requests service0"
  by (simp add: getTranscript_def isCacheExpired_def CACHE_TTL_def service0_def)




section \<open>Ownership\<close>








end
